theory Spec2Isabelle
  imports Main "HOL-Library.Multiset"
begin

section \<open>Python values, dictionaries and exceptions\<close>

text \<open>
  The module \<^verbatim>\<open>social/backends/oauth.py\<close> works on dynamically typed Python
  values. The values that reach the code modelled here are scalars: \<^verbatim>\<open>None\<close>,
  integers and strings. Python's \<^verbatim>\<open>bool\<close> is a subclass of \<^verbatim>\<open>int\<close>
  (\<^verbatim>\<open>True == 1\<close>, \<^verbatim>\<open>hash(True) == hash(1)\<close>), so \<^verbatim>\<open>False\<close> and \<^verbatim>\<open>True\<close> are the
  integers 0 and 1: under \<^verbatim>\<open>==\<close>, as dictionary keys and under truthiness
  nothing tells them apart.
\<close>

datatype pyval = PNone | PInt int | PStr string

abbreviation PFalse :: pyval where
  "PFalse \<equiv> PInt 0"

abbreviation PTrue :: pyval where
  "PTrue \<equiv> PInt 1"

text \<open>Truthiness, as \<^verbatim>\<open>if v:\<close>, \<^verbatim>\<open>not v\<close>, \<^verbatim>\<open>a or b\<close> and \<^verbatim>\<open>a and b\<close> test it.\<close>

fun truthy :: "pyval \<Rightarrow> bool" where
  "truthy PNone = False"
| "truthy (PInt n) = (n \<noteq> 0)"
| "truthy (PStr s) = (s \<noteq> [])"

text \<open>\<^verbatim>\<open>a or b\<close>: the first operand when it is truthy, the second otherwise.\<close>

definition py_or :: "pyval \<Rightarrow> pyval \<Rightarrow> pyval" where
  "py_or a b = (if truthy a then a else b)"

text \<open>
  A \<^verbatim>\<open>dict\<close> is a map from values to values; \<^verbatim>\<open>d.get(k, default)\<close> is
  \<open>py_get d k default\<close>, and \<^verbatim>\<open>d.get(k)\<close> is \<open>py_get d k PNone\<close>.
\<close>

type_synonym pydict = "pyval \<rightharpoonup> pyval"

definition py_get :: "pydict \<Rightarrow> pyval \<Rightarrow> pyval \<Rightarrow> pyval" where
  "py_get d k dflt = (case d k of None \<Rightarrow> dflt | Some v \<Rightarrow> v)"

text \<open>
  The exceptions of \<^verbatim>\<open>social.exceptions\<close> that the module raises, with the
  arguments passed after the backend; \<^verbatim>\<open>HTTPError\<close> of the transport with the
  status code of its response; the built-in \<^verbatim>\<open>KeyError\<close> (with the missing key)
  and \<^verbatim>\<open>TypeError\<close>; and any other exception a collaborator raises.
\<close>

datatype error =
    AuthCanceled "pyval list"
  | AuthFailed "pyval list"
  | AuthUnknownError "pyval list"
  | AuthMissingParameter string
  | AuthStateMissing string
  | AuthStateForbidden
  | AuthTokenError string
  | HTTPError nat
  | KeyError string
  | TypeError
  | OtherError string


section \<open>OAuthAuth: the extra data of a response\<close>

text \<open>
  An entry of \<^verbatim>\<open>EXTRA_DATA\<close> is a list or tuple of fields, or any other value
  (a bare name), which \<^verbatim>\<open>extra_data\<close> wraps into a tuple of one field.
\<close>

datatype entry = Bare pyval | Tuple "pyval list"

definition entry_fields :: "entry \<Rightarrow> pyval list" where
  "entry_fields entry = (case entry of Tuple fields \<Rightarrow> fields | Bare x \<Rightarrow> [x])"

text \<open>
  The fields \<^verbatim>\<open>name, alias, discard\<close> that the loop of \<^verbatim>\<open>extra_data\<close> reads
  from an entry; \<open>None\<close> when the size of the entry is not 1, 2 or 3 (the loop
  then goes on to the next entry).
\<close>

definition unpack_entry :: "entry \<Rightarrow> (pyval \<times> pyval \<times> pyval) option" where
  "unpack_entry entry =
     (let fields = entry_fields entry; sz = length fields in
      if sz \<ge> 1 \<and> sz \<le> 3 then
        Some (if sz = 3 then (fields ! 0, fields ! 1, fields ! 2)
              else if sz = 2 then (fields ! 0, fields ! 1, PFalse)
              else (fields ! 0, fields ! 0, PFalse))
      else None)"

text \<open>The body of the loop of \<^verbatim>\<open>extra_data\<close>, for one entry.\<close>

definition extra_data_entry :: "pydict \<Rightarrow> pydict \<Rightarrow> entry \<Rightarrow> pydict" where
  "extra_data_entry response data entry =
     (case unpack_entry entry of
        None \<Rightarrow> data
      | Some (name, alias, discard) \<Rightarrow>
         (let v = py_get response name PNone
          in if truthy discard \<and> \<not> truthy v then data else data(alias \<mapsto> v)))"

text \<open>
  \<^verbatim>\<open>extra_data\<close>: \<open>EXTRA_DATA\<close> is the class attribute (\<^verbatim>\<open>None\<close> by default),
  \<open>setting\<close> the value of the setting \<^verbatim>\<open>EXTRA_DATA\<close> (an empty list by default).
\<close>

definition extra_data :: "entry list option \<Rightarrow> entry list \<Rightarrow> pydict \<Rightarrow> pydict" where
  "extra_data EXTRA_DATA setting response =
     (let data = [PStr ''access_token'' \<mapsto> py_get response (PStr ''access_token'') (PStr '''')];
          names = (case EXTRA_DATA of None \<Rightarrow> [] | Some xs \<Rightarrow> xs) @ setting
      in foldl (extra_data_entry response) data names)"

text \<open>
  The scope helpers. The record holds what the class attributes and the settings
  give: \<open>SCOPE_setting\<close> is \<^verbatim>\<open>self.setting('SCOPE', [])\<close>, \<open>backend_name\<close> is
  \<^verbatim>\<open>self.name\<close>.
\<close>

record oauth_auth =
  backend_name :: string
  SCOPE_PARAMETER_NAME :: string
  DEFAULT_SCOPE :: "string list option"
  SCOPE_SEPARATOR :: string
  SCOPE_setting :: "string list"

text \<open>\<^verbatim>\<open>sep.join(xs)\<close>\<close>

fun join :: "string \<Rightarrow> string list \<Rightarrow> string" where
  "join sep [] = []"
| "join sep [x] = x"
| "join sep (x # y # ys) = x @ sep @ join sep (y # ys)"

definition get_scope :: "'a oauth_auth_scheme \<Rightarrow> string list" where
  "get_scope b = (case DEFAULT_SCOPE b of None \<Rightarrow> [] | Some xs \<Rightarrow> xs) @ SCOPE_setting b"

definition get_scope_argument :: "'a oauth_auth_scheme \<Rightarrow> (string \<rightharpoonup> string)" where
  "get_scope_argument b =
     (let scope = get_scope b in
      if scope \<noteq> [] then [SCOPE_PARAMETER_NAME b \<mapsto> join (SCOPE_SEPARATOR b) scope]
      else Map.empty)"


section \<open>The request data and the session store\<close>

text \<open>
  \<^verbatim>\<open>self.data\<close> holds the parameters of the callback request: names and values
  are strings. The session store of the strategy is a key-value store;
  \<^verbatim>\<open>session_get(name)\<close> gives \<^verbatim>\<open>None\<close> for a missing key,
  \<^verbatim>\<open>session_get(name, default)\<close> the default.
\<close>

type_synonym params = "string \<rightharpoonup> string"

type_synonym 'v session = "string \<rightharpoonup> 'v"

definition session_get :: "'v session \<Rightarrow> string \<Rightarrow> 'v option" where
  "session_get session name = session name"

definition session_get_default :: "'v session \<Rightarrow> string \<Rightarrow> 'v \<Rightarrow> 'v" where
  "session_get_default session name dflt = (case session name of None \<Rightarrow> dflt | Some v \<Rightarrow> v)"

definition session_set :: "'v session \<Rightarrow> string \<Rightarrow> 'v \<Rightarrow> 'v session" where
  "session_set session name v = session(name \<mapsto> v)"


section \<open>BaseOAuth1\<close>

text \<open>
  An unauthorized token in the session is the content of the provider's response
  (a query string) or a \<^verbatim>\<open>dict\<close>; \<^verbatim>\<open>auth_complete\<close> tells them apart with
  \<^verbatim>\<open>isinstance(unauthed_token, dict)\<close>.
\<close>

datatype token = TokStr string | TokDict pydict

fun is_dict :: "token \<Rightarrow> bool" where
  "is_dict (TokDict d) = True"
| "is_dict (TokStr s) = False"

text \<open>
  Left as parameters: \<^verbatim>\<open>parse_qs\<close> of \<^verbatim>\<open>social.utils\<close>; the order in which
  Python lists the elements of a set (\<open>list_of_set\<close>, applied to the elements of
  the set, each once); the signed request that \<^verbatim>\<open>self.access_token\<close> sends for
  the access token, with the exception it may raise; and \<^verbatim>\<open>self.do_auth\<close>, which
  ends the flow with the user's data and the strategy's \<^verbatim>\<open>authenticate\<close>.
\<close>

record ('a, 'r) oauth1_env =
  parse_qs :: "string \<Rightarrow> pydict"
  list_of_set :: "token list \<Rightarrow> token list"
  access_token :: "pydict \<Rightarrow> error + 'a"
  do_auth :: "'a \<Rightarrow> error + 'r"

text \<open>
  The order of a set's elements is not specified: all that Python promises of
  \<^verbatim>\<open>list(s)\<close> is that it holds every element of \<^verbatim>\<open>s\<close> once.
\<close>

definition set_order :: "(token list \<Rightarrow> token list) \<Rightarrow> bool" where
  "set_order f = (\<forall>xs. mset (f xs) = mset xs)"

definition OAUTH_TOKEN_PARAMETER_NAME :: string where
  "OAUTH_TOKEN_PARAMETER_NAME = ''oauth_token''"

definition oauth1_process_error :: "params \<Rightarrow> error + unit" where
  "oauth1_process_error data =
     (case data ''oauth_problem'' of
        None \<Rightarrow> Inr ()
      | Some problem \<Rightarrow>
          if problem = ''user_refused'' then Inl (AuthCanceled [PStr ''User refused the access''])
          else Inl (AuthUnknownError [PStr (''Error was '' @ problem)]))"

text \<open>
  The loop of \<^verbatim>\<open>auth_complete\<close> over the unauthorized tokens: the first entry
  whose token id is the callback's, with its parsed form; \<open>None\<close> is the
  \<^verbatim>\<open>else\<close> branch of the loop.
\<close>

definition token_dict :: "(string \<Rightarrow> pydict) \<Rightarrow> token \<Rightarrow> pydict" where
  "token_dict parse t = (case t of TokDict d \<Rightarrow> d | TokStr s \<Rightarrow> parse s)"

definition token_id :: "(string \<Rightarrow> pydict) \<Rightarrow> token \<Rightarrow> pyval" where
  "token_id parse t = py_get (token_dict parse t) (PStr OAUTH_TOKEN_PARAMETER_NAME) PNone"

fun find_unauthed_token ::
  "(string \<Rightarrow> pydict) \<Rightarrow> string \<Rightarrow> token list \<Rightarrow> (token \<times> pydict) option" where
  "find_unauthed_token parse data_token [] = None"
| "find_unauthed_token parse data_token (orig_unauthed_token # rest) =
     (if token_id parse orig_unauthed_token = PStr data_token
      then Some (orig_unauthed_token, token_dict parse orig_unauthed_token)
      else find_unauthed_token parse data_token rest)"

text \<open>
  \<^verbatim>\<open>list(set(unauthed_tokens) - set([orig_unauthed_token]))\<close>. A \<^verbatim>\<open>dict\<close> is
  not hashable: \<^verbatim>\<open>set(unauthed_tokens)\<close> raises \<^verbatim>\<open>TypeError\<close> when the list
  holds one.
\<close>

definition list_set_difference ::
  "(token list \<Rightarrow> token list) \<Rightarrow> token list \<Rightarrow> token \<Rightarrow> error + token list" where
  "list_set_difference order unauthed_tokens orig_unauthed_token =
     (if list_ex is_dict unauthed_tokens then Inl TypeError
      else Inr (order (remdups (removeAll orig_unauthed_token unauthed_tokens))))"

text \<open>
  The end of \<^verbatim>\<open>auth_complete\<close>: the matched token is exchanged for an access
  token, which \<^verbatim>\<open>do_auth\<close> gets; \<^verbatim>\<open>HTTPError\<close> with status 400 becomes
  \<^verbatim>\<open>AuthCanceled\<close>.
\<close>

definition oauth1_exchange :: "('a, 'r) oauth1_env \<Rightarrow> pydict \<Rightarrow> error + 'r" where
  "oauth1_exchange env tok =
     (case access_token env tok of
        Inl (HTTPError status) \<Rightarrow>
          if status = 400 then Inl (AuthCanceled []) else Inl (HTTPError status)
      | Inl e \<Rightarrow> Inl e
      | Inr at \<Rightarrow> do_auth env at)"

text \<open>
  \<^verbatim>\<open>auth_complete\<close>: the result (an exception or the value of \<^verbatim>\<open>do_auth\<close>) and
  the session as the call leaves it.
\<close>

definition oauth1_auth_complete ::
  "('a, 'r) oauth1_env \<Rightarrow> string \<Rightarrow> params \<Rightarrow> token list session
     \<Rightarrow> (error + 'r) \<times> token list session" where
  "oauth1_auth_complete env backend data session =
     (case oauth1_process_error data of
        Inl e \<Rightarrow> (Inl e, session)
      | Inr u \<Rightarrow>
         (let name = backend @ ''unauthorized_token_name'';
              unauthed_tokens = session_get_default session name []
          in if unauthed_tokens = [] then (Inl (AuthTokenError ''Missing unauthorized token''), session)
             else
              (let data_token = (case data OAUTH_TOKEN_PARAMETER_NAME of
                                   None \<Rightarrow> ''no-token'' | Some t \<Rightarrow> t)
               in case find_unauthed_token (parse_qs env) data_token unauthed_tokens of
                    None \<Rightarrow> (Inl (AuthTokenError ''Incorrect tokens''), session)
                  | Some (orig_unauthed_token, tok) \<Rightarrow>
                     (case list_set_difference (list_of_set env) unauthed_tokens orig_unauthed_token of
                        Inl e \<Rightarrow> (Inl e, session)
                      | Inr remaining \<Rightarrow>
                         (oauth1_exchange env tok, session_set session name remaining)))))"


section \<open>BaseOAuth2\<close>

text \<open>
  The attributes of the class and what \<^verbatim>\<open>get_key_and_secret\<close> and
  \<^verbatim>\<open>self.redirect_uri\<close> give.
\<close>

record oauth2_backend = oauth_auth +
  AUTHORIZATION_URL :: string
  RESPONSE_TYPE :: "string option"
  REDIRECT_STATE :: bool
  STATE_PARAMETER :: bool
  redirect_uri :: string
  client_id :: string
  client_secret :: string

text \<open>
  The class as it stands, with the attributes it sets (\<^verbatim>\<open>RESPONSE_TYPE = 'code'\<close>,
  \<^verbatim>\<open>REDIRECT_STATE = True\<close>, \<^verbatim>\<open>STATE_PARAMETER = True\<close>, and from
  \<^verbatim>\<open>OAuthAuth\<close> \<^verbatim>\<open>SCOPE_PARAMETER_NAME = 'scope'\<close>, \<^verbatim>\<open>DEFAULT_SCOPE = None\<close>,
  \<^verbatim>\<open>SCOPE_SEPARATOR = ' '\<close>) and no \<^verbatim>\<open>SCOPE\<close> setting; a provider gives the
  name, the authorization URL, the redirect URI, the key and the secret.
\<close>

definition BaseOAuth2 :: "string \<Rightarrow> string \<Rightarrow> string \<Rightarrow> string \<Rightarrow> string \<Rightarrow> oauth2_backend" where
  "BaseOAuth2 name url uri key secret =
     \<lparr>backend_name = name, SCOPE_PARAMETER_NAME = ''scope'', DEFAULT_SCOPE = None,
      SCOPE_SEPARATOR = '' '', SCOPE_setting = [],
      AUTHORIZATION_URL = url, RESPONSE_TYPE = Some ''code'', REDIRECT_STATE = True,
      STATE_PARAMETER = True, redirect_uri = uri, client_id = key, client_secret = secret\<rparr>"

text \<open>
  Left as parameters: \<^verbatim>\<open>random_string\<close> of the strategy, \<^verbatim>\<open>url_add_parameters\<close>
  of \<^verbatim>\<open>social.utils\<close>, \<^verbatim>\<open>urlencode\<close> and \<^verbatim>\<open>unquote\<close> of \<^verbatim>\<open>social.p3\<close>, the
  hook \<^verbatim>\<open>auth_extra_arguments\<close>, the request that \<^verbatim>\<open>request_access_token\<close>
  sends to the token endpoint (given the form data, it returns the parsed
  response or raises), the hook \<^verbatim>\<open>user_data\<close> (given the access token and the
  response) and \<^verbatim>\<open>authenticate\<close> of the strategy (given the response).
\<close>

record 'r oauth2_env =
  random_string :: "nat \<Rightarrow> string"
  url_add_parameters :: "string \<Rightarrow> (string \<rightharpoonup> string) \<Rightarrow> string"
  urlencode :: "(string \<rightharpoonup> string) \<Rightarrow> string"
  unquote :: "string \<Rightarrow> string"
  auth_extra_arguments :: "string \<rightharpoonup> string"
  request_access_token :: "(string \<rightharpoonup> string) \<Rightarrow> error + pydict"
  user_data :: "pyval \<Rightarrow> pydict \<Rightarrow> error + pydict option"
  authenticate :: "pydict \<Rightarrow> error + 'r"

text \<open>
  The state is \<^verbatim>\<open>None\<close> or a string; \<open>str_truthy\<close> is its truthiness and
  \<open>str_or\<close> is \<^verbatim>\<open>a or b\<close> on such values.
\<close>

fun str_truthy :: "string option \<Rightarrow> bool" where
  "str_truthy None = False"
| "str_truthy (Some s) = (s \<noteq> [])"

definition str_or :: "string option \<Rightarrow> string option \<Rightarrow> string option" where
  "str_or a b = (if str_truthy a then a else b)"

definition state_token :: "('r, 'x) oauth2_env_scheme \<Rightarrow> string" where
  "state_token env = random_string env 32"

fun get_redirect_uri ::
  "'b oauth2_backend_scheme \<Rightarrow> ('r, 'x) oauth2_env_scheme \<Rightarrow> string option \<Rightarrow> string" where
  "get_redirect_uri b env None = redirect_uri b"
| "get_redirect_uri b env (Some s) =
     (if REDIRECT_STATE b \<and> s \<noteq> []
      then url_add_parameters env (redirect_uri b) [''redirect_state'' \<mapsto> s]
      else redirect_uri b)"

definition auth_params ::
  "'b oauth2_backend_scheme \<Rightarrow> ('r, 'x) oauth2_env_scheme \<Rightarrow> string option
     \<Rightarrow> (string \<rightharpoonup> string)" where
  "auth_params b env state =
     (let params = [''client_id'' \<mapsto> client_id b,
                    ''redirect_uri'' \<mapsto> get_redirect_uri b env state];
          params = (case state of
                      None \<Rightarrow> params
                    | Some s \<Rightarrow> if STATE_PARAMETER b \<and> s \<noteq> [] then params(''state'' \<mapsto> s)
                                else params)
      in case RESPONSE_TYPE b of
           None \<Rightarrow> params
         | Some r \<Rightarrow> if r \<noteq> [] then params(''response_type'' \<mapsto> r) else params)"

text \<open>\<^verbatim>\<open>auth_url\<close>: the redirect URL and the session as the call leaves it.\<close>

definition oauth2_auth_url ::
  "'b oauth2_backend_scheme \<Rightarrow> ('r, 'x) oauth2_env_scheme \<Rightarrow> string session
     \<Rightarrow> string \<times> string session" where
  "oauth2_auth_url b env session =
     (let (state, session') =
            (if STATE_PARAMETER b \<or> REDIRECT_STATE b then
               (let name = backend_name b @ ''_state'' in
                case session_get session name of
                  None \<Rightarrow> (let state = state_token env
                           in (Some state, session_set session name state))
                | Some state \<Rightarrow> (Some state, session))
             else (None, session));
          params = auth_params b env state ++ get_scope_argument b ++ auth_extra_arguments env;
          params = urlencode env params;
          params = (if \<not> REDIRECT_STATE b then unquote env params else params)
      in (AUTHORIZATION_URL b @ ''?'' @ params, session'))"

text \<open>
  The value that \<^verbatim>\<open>validate_state\<close> reads from the callback:
  \<^verbatim>\<open>self.data.get('state') or self.data.get('redirect_state')\<close>.
\<close>

definition request_state :: "params \<Rightarrow> string option" where
  "request_state data = str_or (data ''state'') (data ''redirect_state'')"

definition validate_state ::
  "'b oauth2_backend_scheme \<Rightarrow> params \<Rightarrow> string session \<Rightarrow> error + string option" where
  "validate_state b data session =
     (if \<not> STATE_PARAMETER b \<and> \<not> REDIRECT_STATE b then Inr None
      else
       (let state = session_get session (backend_name b @ ''_state'') in
        if str_truthy state then
          (if \<not> str_truthy (request_state data) then Inl (AuthMissingParameter ''state'')
           else if \<not> str_truthy state then Inl (AuthStateMissing ''state'')
           else if \<not> request_state data = state then Inl AuthStateForbidden
           else Inr state)
        else Inr state))"

definition auth_complete_params ::
  "'b oauth2_backend_scheme \<Rightarrow> ('r, 'x) oauth2_env_scheme \<Rightarrow> params \<Rightarrow> string option
     \<Rightarrow> (string \<rightharpoonup> string)" where
  "auth_complete_params b env data state =
     [''grant_type'' \<mapsto> ''authorization_code'',
      ''code'' \<mapsto> (case data ''code'' of None \<Rightarrow> [] | Some c \<Rightarrow> c),
      ''client_id'' \<mapsto> client_id b,
      ''client_secret'' \<mapsto> client_secret b,
      ''redirect_uri'' \<mapsto> get_redirect_uri b env state]"

text \<open>
  \<^verbatim>\<open>process_error\<close> reads a \<^verbatim>\<open>dict\<close>: the callback's parameters first (as a
  \<^verbatim>\<open>dict\<close> of strings, \<open>params_dict\<close>), the response of the token endpoint then.
\<close>

definition params_dict :: "params \<Rightarrow> pydict" where
  "params_dict data k =
     (case k of PStr s \<Rightarrow> map_option PStr (data s) | PNone \<Rightarrow> None | PInt n \<Rightarrow> None)"

definition oauth2_process_error :: "pydict \<Rightarrow> error + unit" where
  "oauth2_process_error data =
     (if truthy (py_get data (PStr ''error'') PNone) then
        (if py_get data (PStr ''error'') PNone = PStr ''denied''
            \<or> py_get data (PStr ''error'') PNone = PStr ''access_denied''
         then Inl (AuthCanceled [py_get data (PStr ''error_description'') (PStr '''')])
         else Inl (AuthFailed [py_or (py_get data (PStr ''error_description'') PNone)
                                     (py_get data (PStr ''error'') PNone)]))
      else case data (PStr ''denied'') of
             Some denied \<Rightarrow> Inl (AuthCanceled [denied])
           | None \<Rightarrow> Inr ())"

text \<open>
  \<^verbatim>\<open>do_auth\<close>: \<open>response_kw\<close> is the keyword argument \<^verbatim>\<open>response\<close> (\<open>None\<close>
  when the caller passes none).
\<close>

definition oauth2_do_auth ::
  "('r, 'x) oauth2_env_scheme \<Rightarrow> pyval \<Rightarrow> pydict option \<Rightarrow> error + 'r" where
  "oauth2_do_auth env token response_kw =
     (let response = (case response_kw of None \<Rightarrow> Map.empty | Some r \<Rightarrow> r) in
      case user_data env token response of
        Inl e \<Rightarrow> Inl e
      | Inr data \<Rightarrow>
          authenticate env (response ++ (case data of None \<Rightarrow> Map.empty | Some d \<Rightarrow> d)))"

text \<open>The \<^verbatim>\<open>except\<close> clauses around the request to the token endpoint.\<close>

definition except_token_request :: "error + 'a \<Rightarrow> error + 'a" where
  "except_token_request r =
     (case r of
        Inl (HTTPError status) \<Rightarrow>
          if status = 400 then Inl (AuthCanceled []) else Inl (HTTPError status)
      | Inl (KeyError k) \<Rightarrow> Inl (AuthUnknownError [])
      | Inl e \<Rightarrow> Inl e
      | Inr v \<Rightarrow> Inr v)"

definition oauth2_auth_complete ::
  "'b oauth2_backend_scheme \<Rightarrow> ('r, 'x) oauth2_env_scheme \<Rightarrow> params \<Rightarrow> string session
     \<Rightarrow> error + 'r" where
  "oauth2_auth_complete b env data session =
     (case oauth2_process_error (params_dict data) of
        Inl e \<Rightarrow> Inl e
      | Inr u \<Rightarrow>
         (case except_token_request
                 (case validate_state b data session of
                    Inl e \<Rightarrow> Inl e
                  | Inr state \<Rightarrow> request_access_token env (auth_complete_params b env data state)) of
            Inl e \<Rightarrow> Inl e
          | Inr response \<Rightarrow>
             (case oauth2_process_error response of
                Inl e \<Rightarrow> Inl e
              | Inr u \<Rightarrow>
                 (case response (PStr ''access_token'') of
                    None \<Rightarrow> Inl (KeyError ''access_token'')
                  | Some token \<Rightarrow> oauth2_do_auth env token (Some response)))))"


section \<open>The extra data: what the result holds\<close>

text \<open>
  \<^verbatim>\<open>extra_data\<close> runs the loop body over the class attribute's entries, then over
  the setting's, from the dictionary that holds \<^verbatim>\<open>access_token\<close> alone.
\<close>

lemma extra_data_foldl:
  "extra_data EXTRA_DATA setting response =
     foldl (extra_data_entry response)
       [PStr ''access_token'' \<mapsto> py_get response (PStr ''access_token'') (PStr '''')]
       ((case EXTRA_DATA of None \<Rightarrow> [] | Some xs \<Rightarrow> xs) @ setting)"
  by (simp add: extra_data_def)

lemma unpack_entry_malformed:
  "length fs = 0 \<or> 3 < length fs \<Longrightarrow> unpack_entry (Tuple fs) = None"
  by (auto simp: unpack_entry_def entry_fields_def)

lemma extra_data_entry_skip:
  "unpack_entry entry = None \<Longrightarrow> extra_data_entry response data entry = data"
  by (simp add: extra_data_entry_def)

lemma extra_data_entry_discard:
  "unpack_entry entry = Some (name, alias, discard) \<Longrightarrow> truthy discard
     \<Longrightarrow> \<not> truthy (py_get response name PNone) \<Longrightarrow> extra_data_entry response data entry = data"
  by (simp add: extra_data_entry_def)

lemma extra_data_entry_store:
  "unpack_entry entry = Some (name, alias, discard)
     \<Longrightarrow> \<not> (truthy discard \<and> \<not> truthy (py_get response name PNone))
     \<Longrightarrow> extra_data_entry response data entry = data(alias \<mapsto> py_get response name PNone)"
  by (auto simp: extra_data_entry_def)

text \<open>An entry whose alias is not \<open>k\<close> leaves the key \<open>k\<close> as it was.\<close>

lemma extra_data_entry_other:
  "\<forall>n d. unpack_entry entry \<noteq> Some (n, k, d) \<Longrightarrow> extra_data_entry response data entry k = data k"
  by (auto simp: extra_data_entry_def Let_def split: option.splits)

text \<open>No entry removes a key.\<close>

lemma extra_data_entry_dom:
  "k \<in> dom data \<Longrightarrow> k \<in> dom (extra_data_entry response data entry)"
  by (auto simp: extra_data_entry_def Let_def split: option.splits)

lemma foldl_extra_data_entry_dom:
  "k \<in> dom data \<Longrightarrow> k \<in> dom (foldl (extra_data_entry response) data names)"
  by (induction names arbitrary: data) (simp_all add: extra_data_entry_dom)

lemma foldl_extra_data_entry_other:
  "\<forall>e\<in>set names. \<forall>n d. unpack_entry e \<noteq> Some (n, k, d)
     \<Longrightarrow> foldl (extra_data_entry response) data names k = data k"
  by (induction names arbitrary: data) (simp_all add: extra_data_entry_other)

text \<open>
  Claim C4, as the code has it. The specification asks that an entry whose size
  is not 1, 2 or 3 be rejected as a configuration error and never skipped in
  silence. \<^verbatim>\<open>extra_data\<close> raises nothing: the test
  \<^verbatim>\<open>if size >= 1 and size <= 3\<close> guards the whole body of the loop, so such an
  entry is passed over, wherever it stands in the class attribute or in the
  setting, and the result is the one the list without the entry gives.
\<close>

theorem extra_data_skips_malformed:
  assumes "length fs = 0 \<or> 3 < length fs"
  shows "extra_data (Some (xs @ Tuple fs # ys)) setting response
           = extra_data (Some (xs @ ys)) setting response
       \<and> extra_data EXTRA_DATA (xs @ Tuple fs # ys) response
           = extra_data EXTRA_DATA (xs @ ys) response"
  using assms by (simp add: extra_data_foldl extra_data_entry_skip unpack_entry_malformed)

text \<open>
  A witness: in the class attribute, after \<^verbatim>\<open>('id', 'id')\<close>, an entry of four
  fields changes nothing; in the setting, before \<^verbatim>\<open>('id', 'id')\<close>, an empty
  tuple changes nothing.
\<close>

theorem extra_data_skips_malformed_witness:
  "extra_data (Some [Tuple [PStr ''id'', PStr ''id''],
                     Tuple [PStr ''email'', PStr ''email_addr'', PTrue, PStr ''x'']]) []
       [PStr ''id'' \<mapsto> PInt 7, PStr ''email'' \<mapsto> PStr ''a@b.com'']
     = extra_data (Some [Tuple [PStr ''id'', PStr ''id'']]) []
       [PStr ''id'' \<mapsto> PInt 7, PStr ''email'' \<mapsto> PStr ''a@b.com'']
   \<and> extra_data None [Tuple [], Tuple [PStr ''id'', PStr ''id'']]
       [PStr ''id'' \<mapsto> PInt 7, PStr ''email'' \<mapsto> PStr ''a@b.com'']
     = extra_data None [Tuple [PStr ''id'', PStr ''id'']]
       [PStr ''id'' \<mapsto> PInt 7, PStr ''email'' \<mapsto> PStr ''a@b.com'']"
proof -
  let ?r = "[PStr ''id'' \<mapsto> PInt 7, PStr ''email'' \<mapsto> PStr ''a@b.com'']"
  have a: "extra_data (Some [Tuple [PStr ''id'', PStr ''id''],
                     Tuple [PStr ''email'', PStr ''email_addr'', PTrue, PStr ''x'']]) [] ?r
     = extra_data (Some [Tuple [PStr ''id'', PStr ''id'']]) [] ?r"
    using extra_data_skips_malformed [of "[PStr ''email'', PStr ''email_addr'', PTrue, PStr ''x'']"
        "[Tuple [PStr ''id'', PStr ''id'']]" "[]" "[]" ?r, THEN conjunct1]
    by simp
  have b: "extra_data None [Tuple [], Tuple [PStr ''id'', PStr ''id'']] ?r
     = extra_data None [Tuple [PStr ''id'', PStr ''id'']] ?r"
    using extra_data_skips_malformed [of "[]" "[]" "[Tuple [PStr ''id'', PStr ''id'']]" _ ?r None,
        THEN conjunct2]
    by simp
  from a b show ?thesis by (rule conjI)
qed

text \<open>
  The counterexample to claim C4 as the specification states it: with the entry
  \<^verbatim>\<open>('email', 'email_addr', True, 'x')\<close> and a response that holds an email,
  \<^verbatim>\<open>extra_data\<close> returns, and returns the dictionary with \<^verbatim>\<open>access_token\<close>
  alone: the entry was skipped, and nothing reports it.
\<close>

theorem extra_data_malformed_counterexample:
  "extra_data (Some [Tuple [PStr ''email'', PStr ''email_addr'', PTrue, PStr ''x'']]) []
       [PStr ''email'' \<mapsto> PStr ''a@b.com'']
     = [PStr ''access_token'' \<mapsto> PStr '''']"
  by (simp add: extra_data_def extra_data_entry_def unpack_entry_def entry_fields_def py_get_def)

text \<open>
  Claim C7, as the code has it. The result always holds the key
  \<^verbatim>\<open>access_token\<close>, seeded with the response's \<^verbatim>\<open>access_token\<close> or the empty
  string; the seed is the result's value there when no entry has the alias
  \<^verbatim>\<open>access_token\<close>. The entries are applied in order, each to the dictionary the
  earlier ones left. An entry whose \<^verbatim>\<open>discard\<close> is set and whose source value is
  empty (falsy: \<^verbatim>\<open>None\<close> when the response has no such field, an empty string,
  zero or \<^verbatim>\<open>False\<close>) stores nothing: its alias is no key of the result when the
  alias is not \<^verbatim>\<open>access_token\<close> and no other entry has it. Any other entry of
  size 1, 2 or 3 stores the value (possibly empty) under its alias, and the
  result holds it there when no later entry has the same alias.
\<close>

theorem extra_data_entries:
  assumes names: "names = (case EXTRA_DATA of None \<Rightarrow> [] | Some xs \<Rightarrow> xs) @ setting"
  shows "PStr ''access_token'' \<in> dom (extra_data EXTRA_DATA setting response)
     \<and> ((\<forall>e\<in>set names. \<forall>n d. unpack_entry e \<noteq> Some (n, PStr ''access_token'', d)) \<longrightarrow>
          extra_data EXTRA_DATA setting response (PStr ''access_token'')
            = Some (py_get response (PStr ''access_token'') (PStr '''')))
     \<and> (\<forall>pre entry post name alias discard.
          names = pre @ entry # post \<and> unpack_entry entry = Some (name, alias, discard)
          \<and> truthy discard \<and> \<not> truthy (py_get response name PNone)
          \<and> alias \<noteq> PStr ''access_token''
          \<and> (\<forall>e\<in>set (pre @ post). \<forall>n d. unpack_entry e \<noteq> Some (n, alias, d))
          \<longrightarrow> alias \<notin> dom (extra_data EXTRA_DATA setting response))
     \<and> (\<forall>pre entry post name alias discard.
          names = pre @ entry # post \<and> unpack_entry entry = Some (name, alias, discard)
          \<and> \<not> (truthy discard \<and> \<not> truthy (py_get response name PNone))
          \<and> (\<forall>e\<in>set post. \<forall>n d. unpack_entry e \<noteq> Some (n, alias, d))
          \<longrightarrow> extra_data EXTRA_DATA setting response alias = Some (py_get response name PNone))"
proof -
  let ?seed = "[PStr ''access_token'' \<mapsto> py_get response (PStr ''access_token'') (PStr '''')]"
  let ?res = "extra_data EXTRA_DATA setting response"
  have res: "?res = foldl (extra_data_entry response) ?seed names"
    by (simp add: extra_data_foldl names)
  have split_at: "?res = foldl (extra_data_entry response)
                    (extra_data_entry response (foldl (extra_data_entry response) ?seed pre) e) post"
    if "names = pre @ e # post" for pre e post
    using that by (simp add: res)
  have seeded: "PStr ''access_token'' \<in> dom ?res"
    unfolding res by (rule foldl_extra_data_entry_dom) simp
  have seed_kept: "?res (PStr ''access_token'') = Some (py_get response (PStr ''access_token'') (PStr ''''))"
    if "\<forall>e\<in>set names. \<forall>n d. unpack_entry e \<noteq> Some (n, PStr ''access_token'', d)"
    using that unfolding res by (simp add: foldl_extra_data_entry_other)
  have omitted: "al \<notin> dom ?res"
    if "names = pre @ e # post" and "unpack_entry e = Some (nm, al, dc)"
      and "truthy dc" and "\<not> truthy (py_get response nm PNone)"
      and "al \<noteq> PStr ''access_token''"
      and "\<forall>e\<in>set (pre @ post). \<forall>n d. unpack_entry e \<noteq> Some (n, al, d)"
    for pre e post nm al dc
  proof -
    have "?res al = ?seed al"
      using that by (simp add: split_at [OF that(1)] extra_data_entry_discard
          foldl_extra_data_entry_other)
    with that(5) show ?thesis by (simp add: domIff)
  qed
  have stored: "?res al = Some (py_get response nm PNone)"
    if "names = pre @ e # post" and "unpack_entry e = Some (nm, al, dc)"
      and "\<not> (truthy dc \<and> \<not> truthy (py_get response nm PNone))"
      and "\<forall>e\<in>set post. \<forall>n d. unpack_entry e \<noteq> Some (n, al, d)"
    for pre e post nm al dc
    unfolding split_at [OF that(1)] extra_data_entry_store [OF that(2) that(3)]
    using that(4) by (simp add: foldl_extra_data_entry_other)
  show ?thesis
  proof (intro conjI allI impI)
    show "PStr ''access_token'' \<in> dom ?res"
      by (rule seeded)
  next
    assume "\<forall>e\<in>set names. \<forall>n d. unpack_entry e \<noteq> Some (n, PStr ''access_token'', d)"
    then show "?res (PStr ''access_token'') = Some (py_get response (PStr ''access_token'') (PStr []))"
      by (rule seed_kept)
  next
    fix pre e post nm al dc
    assume h: "names = pre @ e # post \<and> unpack_entry e = Some (nm, al, dc)
          \<and> truthy dc \<and> \<not> truthy (py_get response nm PNone)
          \<and> al \<noteq> PStr ''access_token''
          \<and> (\<forall>e\<in>set (pre @ post). \<forall>n d. unpack_entry e \<noteq> Some (n, al, d))"
    show "al \<notin> dom ?res"
      by (rule omitted [of pre e post nm al dc]) (insert h, simp_all)
  next
    fix pre e post nm al dc
    assume h: "names = pre @ e # post \<and> unpack_entry e = Some (nm, al, dc)
          \<and> \<not> (truthy dc \<and> \<not> truthy (py_get response nm PNone))
          \<and> (\<forall>e\<in>set post. \<forall>n d. unpack_entry e \<noteq> Some (n, al, d))"
    show "?res al = Some (py_get response nm PNone)"
      by (rule stored [of pre e post nm al dc]) (insert h, simp_all)
  qed
qed

text \<open>
  A witness, the example of the specification: with the entry
  \<^verbatim>\<open>('email', 'email_addr', True)\<close>, the response \<^verbatim>\<open>{'email': ''}\<close> gives a
  result without \<^verbatim>\<open>email_addr\<close>, and the response
  \<^verbatim>\<open>{'email': 'a@b.com'}\<close> a result with \<^verbatim>\<open>email_addr\<close> and
  \<^verbatim>\<open>access_token\<close>; a response that holds the access token \<^verbatim>\<open>tok\<close> gives a
  result that holds it.
\<close>

theorem extra_data_entries_witness:
  "PStr ''email_addr'' \<notin> dom (extra_data (Some [Tuple [PStr ''email'', PStr ''email_addr'', PTrue]]) []
        [PStr ''email'' \<mapsto> PStr ''''])
   \<and> extra_data (Some [Tuple [PStr ''email'', PStr ''email_addr'', PTrue]]) []
        [PStr ''email'' \<mapsto> PStr ''a@b.com''] (PStr ''email_addr'') = Some (PStr ''a@b.com'')
   \<and> PStr ''access_token'' \<in> dom (extra_data (Some [Tuple [PStr ''email'', PStr ''email_addr'', PTrue]]) []
        [PStr ''email'' \<mapsto> PStr ''a@b.com''])
   \<and> extra_data (Some [Tuple [PStr ''email'', PStr ''email_addr'', PTrue]]) []
        [PStr ''email'' \<mapsto> PStr ''a@b.com'', PStr ''access_token'' \<mapsto> PStr ''tok'']
        (PStr ''access_token'') = Some (PStr ''tok'')"
proof -
  let ?e = "Tuple [PStr ''email'', PStr ''email_addr'', PTrue]"
  have u: "unpack_entry ?e = Some (PStr ''email'', PStr ''email_addr'', PTrue)"
    by (simp add: unpack_entry_def entry_fields_def)
  note T = extra_data_entries [OF refl, of "Some [?e]" "[]"]
  have a: "PStr ''email_addr'' \<notin> dom (extra_data (Some [?e]) [] [PStr ''email'' \<mapsto> PStr ''''])"
    using T [of "[PStr ''email'' \<mapsto> PStr '''']", THEN conjunct2, THEN conjunct2, THEN conjunct1,
        rule_format, of "[]" ?e "[]" "PStr ''email''" "PStr ''email_addr''" PTrue]
    by (simp add: u py_get_def)
  have b: "extra_data (Some [?e]) [] [PStr ''email'' \<mapsto> PStr ''a@b.com''] (PStr ''email_addr'')
             = Some (PStr ''a@b.com'')"
    using T [of "[PStr ''email'' \<mapsto> PStr ''a@b.com'']", THEN conjunct2, THEN conjunct2, THEN conjunct2,
        rule_format, of "[]" ?e "[]" "PStr ''email''" "PStr ''email_addr''" PTrue]
    by (simp add: u py_get_def)
  have c: "PStr ''access_token'' \<in> dom (extra_data (Some [?e]) [] [PStr ''email'' \<mapsto> PStr ''a@b.com''])"
    using T [of "[PStr ''email'' \<mapsto> PStr ''a@b.com'']", THEN conjunct1] .
  have d: "extra_data (Some [?e]) []
        [PStr ''email'' \<mapsto> PStr ''a@b.com'', PStr ''access_token'' \<mapsto> PStr ''tok'']
        (PStr ''access_token'') = Some (PStr ''tok'')"
    using T [of "[PStr ''email'' \<mapsto> PStr ''a@b.com'', PStr ''access_token'' \<mapsto> PStr ''tok'']",
        THEN conjunct2, THEN conjunct1]
    by (simp add: u py_get_def)
  from a b c d show ?thesis by blast
qed

text \<open>
  The counterexample to claim C7 as the specification states it, for every
  entry and the result as a whole: of the entries \<^verbatim>\<open>('a', 'k')\<close> and
  \<^verbatim>\<open>('b', 'k', True)\<close>, the second has \<^verbatim>\<open>discard\<close> set and its source field
  \<^verbatim>\<open>b\<close> is absent from the response \<^verbatim>\<open>{'a': 'x'}\<close>, and yet its alias \<^verbatim>\<open>k\<close>
  is a key of the result: the first entry stored it.
\<close>

theorem extra_data_shared_alias_counterexample:
  "extra_data (Some [Tuple [PStr ''a'', PStr ''k''], Tuple [PStr ''b'', PStr ''k'', PTrue]]) []
     [PStr ''a'' \<mapsto> PStr ''x'']
   = [PStr ''access_token'' \<mapsto> PStr '''', PStr ''k'' \<mapsto> PStr ''x'']"
  by (simp add: extra_data_def extra_data_entry_def unpack_entry_def entry_fields_def py_get_def)


section \<open>BaseOAuth1: the unauthorized tokens of a session\<close>

subsection \<open>The loop over the tokens\<close>

text \<open>The loop ends in its \<^verbatim>\<open>else\<close> branch when no entry has the callback's token id.\<close>

lemma find_unauthed_token_None:
  "find_unauthed_token parse data_token ts = None
     \<longleftrightarrow> (\<forall>t\<in>set ts. token_id parse t \<noteq> PStr data_token)"
  by (induction ts) auto

text \<open>It stops at the first entry that has the callback's token id.\<close>

lemma find_unauthed_token_first:
  assumes "i < length ts" and "token_id parse (ts ! i) = PStr data_token"
    and "\<forall>j<i. token_id parse (ts ! j) \<noteq> PStr data_token"
  shows "find_unauthed_token parse data_token ts = Some (ts ! i, token_dict parse (ts ! i))"
  using assms
proof (induction ts arbitrary: i)
  case Nil
  then show ?case by simp
next
  case (Cons t ts)
  show ?case
  proof (cases i)
    case 0
    with Cons.prems show ?thesis by simp
  next
    case (Suc k)
    with Cons.prems have "token_id parse t \<noteq> PStr data_token"
      by auto
    moreover have "find_unauthed_token parse data_token ts = Some (ts ! k, token_dict parse (ts ! k))"
    proof (rule Cons.IH)
      show "k < length ts" using Cons.prems Suc by simp
      show "token_id parse (ts ! k) = PStr data_token" using Cons.prems Suc by simp
      show "\<forall>j<k. token_id parse (ts ! j) \<noteq> PStr data_token"
      proof (intro allI impI)
        fix j assume "j < k"
        then have "Suc j < i" using Suc by simp
        with Cons.prems(3) have "token_id parse ((t # ts) ! Suc j) \<noteq> PStr data_token"
          by blast
        then show "token_id parse (ts ! j) \<noteq> PStr data_token" by simp
      qed
    qed
    ultimately show ?thesis using Suc by simp
  qed
qed

lemma find_unauthed_token_Some:
  assumes "find_unauthed_token parse data_token ts = Some (orig, tok)"
  shows "orig \<in> set ts \<and> token_id parse orig = PStr data_token \<and> tok = token_dict parse orig"
  using assms by (induction ts) (auto split: if_splits)

lemma find_unauthed_token_exists:
  assumes "\<exists>t\<in>set ts. token_id parse t = PStr data_token"
  shows "\<exists>orig. find_unauthed_token parse data_token ts = Some (orig, token_dict parse orig)"
proof (cases "find_unauthed_token parse data_token ts")
  case None
  with assms show ?thesis by (simp add: find_unauthed_token_None)
next
  case (Some p)
  obtain orig tok where "p = (orig, tok)" by (cases p)
  with Some find_unauthed_token_Some [of parse data_token ts orig tok] show ?thesis
    by auto
qed

subsection \<open>The set difference\<close>

lemma list_set_difference_dict:
  "list_ex is_dict ts \<Longrightarrow> list_set_difference f ts orig = Inl TypeError"
  by (simp add: list_set_difference_def)

text \<open>
  On strings the stored list holds, once each and in the order Python's set
  gives them, the values of the old list other than the matched one. When the
  old entries are pairwise distinct, that is the old list without the matched
  entry, up to the order.
\<close>

lemma list_set_difference_strings:
  assumes "\<not> list_ex is_dict ts" and "set_order f"
  shows "\<exists>stored. list_set_difference f ts orig = Inr stored
           \<and> distinct stored \<and> set stored = set ts - {orig}
           \<and> (distinct ts \<and> orig \<in> set ts \<longrightarrow>
                mset stored = mset ts - {#orig#} \<and> length stored = length ts - 1)"
proof -
  let ?xs = "remdups (removeAll orig ts)"
  have m: "mset (f ?xs) = mset ?xs"
    using assms(2) by (simp add: set_order_def)
  have d: "distinct (f ?xs)"
    using m distinct_remdups mset_eq_imp_distinct_iff by blast
  have s: "set (f ?xs) = set ts - {orig}"
    using m mset_eq_setD [OF m] by simp
  have e: "mset (f ?xs) = mset ts - {#orig#} \<and> length (f ?xs) = length ts - 1"
    if "distinct ts" and "orig \<in> set ts"
  proof -
    have "?xs = remove1 orig ts"
      using that by (simp add: distinct_remove1_removeAll distinct_removeAll)
    then have "mset (f ?xs) = mset ts - {#orig#}"
      using m by simp
    moreover have "length (f ?xs) = length ts - 1"
      using that \<open>?xs = remove1 orig ts\<close> mset_eq_length [OF m] by (simp add: length_remove1)
    ultimately show ?thesis by simp
  qed
  show ?thesis
    using assms(1) d s e by (simp add: list_set_difference_def)
qed

subsection \<open>The branches of \<^verbatim>\<open>auth_complete\<close>\<close>

lemma oauth1_process_error_passes:
  "data ''oauth_problem'' = None \<Longrightarrow> oauth1_process_error data = Inr ()"
  by (simp add: oauth1_process_error_def)

lemma oauth1_auth_complete_missing:
  assumes "data ''oauth_problem'' = None"
    and "session_get_default session (backend @ ''unauthorized_token_name'') [] = []"
  shows "oauth1_auth_complete env backend data session
           = (Inl (AuthTokenError ''Missing unauthorized token''), session)"
  using assms by (simp add: oauth1_auth_complete_def oauth1_process_error_passes)

lemma oauth1_auth_complete_incorrect:
  assumes "data ''oauth_problem'' = None"
    and "session_get_default session (backend @ ''unauthorized_token_name'') [] = ts" and "ts \<noteq> []"
    and "find_unauthed_token (parse_qs env)
           (case data OAUTH_TOKEN_PARAMETER_NAME of None \<Rightarrow> ''no-token'' | Some t \<Rightarrow> t) ts = None"
  shows "oauth1_auth_complete env backend data session
           = (Inl (AuthTokenError ''Incorrect tokens''), session)"
  using assms by (simp add: oauth1_auth_complete_def oauth1_process_error_passes)

lemma oauth1_auth_complete_matched:
  assumes "data ''oauth_problem'' = None"
    and "session_get_default session (backend @ ''unauthorized_token_name'') [] = ts" and "ts \<noteq> []"
    and "find_unauthed_token (parse_qs env)
           (case data OAUTH_TOKEN_PARAMETER_NAME of None \<Rightarrow> ''no-token'' | Some t \<Rightarrow> t) ts
         = Some (orig, tok)"
  shows "oauth1_auth_complete env backend data session
           = (case list_set_difference (list_of_set env) ts orig of
                Inl e \<Rightarrow> (Inl e, session)
              | Inr remaining \<Rightarrow>
                  (oauth1_exchange env tok,
                   session_set session (backend @ ''unauthorized_token_name'') remaining))"
  using assms by (simp add: oauth1_auth_complete_def oauth1_process_error_passes)

text \<open>
  When the list of the session holds a \<^verbatim>\<open>dict\<close> and an entry matches, building
  the set raises \<^verbatim>\<open>TypeError\<close>: the call ends there and the session keeps the
  list as it was.
\<close>

lemma oauth1_auth_complete_dict_TypeError:
  assumes "data ''oauth_problem'' = None"
    and "session_get_default session (backend @ ''unauthorized_token_name'') [] = ts"
    and "find_unauthed_token (parse_qs env)
           (case data OAUTH_TOKEN_PARAMETER_NAME of None \<Rightarrow> ''no-token'' | Some t \<Rightarrow> t) ts
         = Some (orig, tok)"
    and "list_ex is_dict ts"
  shows "oauth1_auth_complete env backend data session = (Inl TypeError, session)"
proof -
  have "ts \<noteq> []" using assms(3) by auto
  with assms show ?thesis
    by (simp add: oauth1_auth_complete_matched list_set_difference_dict)
qed

subsection \<open>Matching the callback against the pending tokens\<close>

text \<open>
  Claim C1, as the code has it. \<^verbatim>\<open>auth_complete\<close> looks at the callback's
  \<^verbatim>\<open>oauth_problem\<close> first, so what follows is about a callback that has none.
  With no pending token in the session the call fails with
  \<^verbatim>\<open>AuthTokenError\<close> (missing token). With pending tokens of which none has the
  callback's token id it fails with \<^verbatim>\<open>AuthTokenError\<close> (incorrect tokens); in
  both cases the session is as it was. When entry \<open>i\<close> is the first that has the
  callback's token id and the pending tokens are strings, that entry is
  exchanged, and the session gets the set difference
  \<^verbatim>\<open>list(set(unauthed_tokens) - set([orig_unauthed_token]))\<close>: a list without
  repetition of the values of the old list other than the value of entry \<open>i\<close>,
  in the order Python's set gives. When the pending tokens are pairwise distinct
  this is the old list without entry \<open>i\<close>, up to the order: \<open>N - 1\<close> entries,
  each of the others once.
\<close>

theorem oauth1_auth_complete_tokens:
  assumes no_problem: "data ''oauth_problem'' = None"
    and tokens: "unauthed_tokens = session_get_default session (backend @ ''unauthorized_token_name'') []"
    and data_token: "data_token = (case data OAUTH_TOKEN_PARAMETER_NAME of
                                     None \<Rightarrow> ''no-token'' | Some t \<Rightarrow> t)"
  shows "(unauthed_tokens = [] \<longrightarrow>
            oauth1_auth_complete env backend data session
              = (Inl (AuthTokenError ''Missing unauthorized token''), session))
       \<and> (unauthed_tokens \<noteq> []
            \<and> (\<forall>t\<in>set unauthed_tokens. token_id (parse_qs env) t \<noteq> PStr data_token) \<longrightarrow>
            oauth1_auth_complete env backend data session
              = (Inl (AuthTokenError ''Incorrect tokens''), session))
       \<and> (\<forall>i. i < length unauthed_tokens
              \<and> token_id (parse_qs env) (unauthed_tokens ! i) = PStr data_token
              \<and> (\<forall>j<i. token_id (parse_qs env) (unauthed_tokens ! j) \<noteq> PStr data_token)
              \<and> \<not> list_ex is_dict unauthed_tokens \<and> set_order (list_of_set env) \<longrightarrow>
            (\<exists>stored.
               oauth1_auth_complete env backend data session
                 = (oauth1_exchange env (token_dict (parse_qs env) (unauthed_tokens ! i)),
                    session_set session (backend @ ''unauthorized_token_name'') stored)
               \<and> distinct stored
               \<and> set stored = set unauthed_tokens - {unauthed_tokens ! i}
               \<and> (distinct unauthed_tokens \<longrightarrow>
                    mset stored = mset unauthed_tokens - {#unauthed_tokens ! i#}
                    \<and> length stored = length unauthed_tokens - 1)))"
proof (intro conjI allI impI)
  assume "unauthed_tokens = []"
  then show "oauth1_auth_complete env backend data session
              = (Inl (AuthTokenError ''Missing unauthorized token''), session)"
    using no_problem tokens by (simp add: oauth1_auth_complete_missing)
next
  assume h: "unauthed_tokens \<noteq> []
            \<and> (\<forall>t\<in>set unauthed_tokens. token_id (parse_qs env) t \<noteq> PStr data_token)"
  then have "find_unauthed_token (parse_qs env) data_token unauthed_tokens = None"
    by (simp add: find_unauthed_token_None)
  then show "oauth1_auth_complete env backend data session
              = (Inl (AuthTokenError ''Incorrect tokens''), session)"
    using h no_problem tokens data_token
    by (simp add: oauth1_auth_complete_incorrect [of data session backend unauthed_tokens env])
next
  fix i
  assume h: "i < length unauthed_tokens
              \<and> token_id (parse_qs env) (unauthed_tokens ! i) = PStr data_token
              \<and> (\<forall>j<i. token_id (parse_qs env) (unauthed_tokens ! j) \<noteq> PStr data_token)
              \<and> \<not> list_ex is_dict unauthed_tokens \<and> set_order (list_of_set env)"
  let ?orig = "unauthed_tokens ! i"
  let ?tok = "token_dict (parse_qs env) ?orig"
  have ne: "unauthed_tokens \<noteq> []" and mem: "?orig \<in> set unauthed_tokens"
    using h by auto
  have found: "find_unauthed_token (parse_qs env) data_token unauthed_tokens = Some (?orig, ?tok)"
    using h by (simp add: find_unauthed_token_first)
  obtain stored where st: "list_set_difference (list_of_set env) unauthed_tokens ?orig = Inr stored"
      and d: "distinct stored" and s: "set stored = set unauthed_tokens - {?orig}"
      and m: "distinct unauthed_tokens \<and> ?orig \<in> set unauthed_tokens \<longrightarrow>
                mset stored = mset unauthed_tokens - {#?orig#}
                \<and> length stored = length unauthed_tokens - 1"
    using list_set_difference_strings [of unauthed_tokens "list_of_set env" ?orig] h by blast
  have "oauth1_auth_complete env backend data session
          = (oauth1_exchange env ?tok,
             session_set session (backend @ ''unauthorized_token_name'') stored)"
    using oauth1_auth_complete_matched [of data session backend unauthed_tokens env ?orig ?tok]
      no_problem tokens data_token ne found st by simp
  with d s m mem
  show "\<exists>stored.
          oauth1_auth_complete env backend data session
            = (oauth1_exchange env ?tok,
               session_set session (backend @ ''unauthorized_token_name'') stored)
          \<and> distinct stored
          \<and> set stored = set unauthed_tokens - {?orig}
          \<and> (distinct unauthed_tokens \<longrightarrow>
               mset stored = mset unauthed_tokens - {#?orig#}
               \<and> length stored = length unauthed_tokens - 1)"
    by blast
qed

text \<open>
  A witness: the session of the backend \<^verbatim>\<open>twitter\<close> holds two pending tokens,
  and the callback carries the id of the second. With no pending token the call
  fails; with the two and a callback that carries another id it fails and the
  session keeps both; with the two, the second is exchanged and the first alone
  stays in the session. (\<open>parse_qs\<close> is given on the two strings it is applied to; the access
  token is the parsed token and \<open>do_auth\<close> returns it.)
\<close>

theorem oauth1_auth_complete_tokens_witness:
  "oauth1_auth_complete
      \<lparr>parse_qs = (\<lambda>s. if s = ''oauth_token=abc&oauth_token_secret=s1''
                        then [PStr ''oauth_token'' \<mapsto> PStr ''abc'', PStr ''oauth_token_secret'' \<mapsto> PStr ''s1'']
                        else if s = ''oauth_token=xyz&oauth_token_secret=s2''
                        then [PStr ''oauth_token'' \<mapsto> PStr ''xyz'', PStr ''oauth_token_secret'' \<mapsto> PStr ''s2'']
                        else Map.empty),
       list_of_set = (\<lambda>xs. xs), access_token = (\<lambda>tok. Inr tok), do_auth = (\<lambda>at. Inr at)\<rparr>
      ''twitter'' [''oauth_token'' \<mapsto> ''xyz''] Map.empty
     = (Inl (AuthTokenError ''Missing unauthorized token''), Map.empty)
   \<and> oauth1_auth_complete
      \<lparr>parse_qs = (\<lambda>s. if s = ''oauth_token=abc&oauth_token_secret=s1''
                        then [PStr ''oauth_token'' \<mapsto> PStr ''abc'', PStr ''oauth_token_secret'' \<mapsto> PStr ''s1'']
                        else if s = ''oauth_token=xyz&oauth_token_secret=s2''
                        then [PStr ''oauth_token'' \<mapsto> PStr ''xyz'', PStr ''oauth_token_secret'' \<mapsto> PStr ''s2'']
                        else Map.empty),
       list_of_set = (\<lambda>xs. xs), access_token = (\<lambda>tok. Inr tok), do_auth = (\<lambda>at. Inr at)\<rparr>
      ''twitter'' [''oauth_token'' \<mapsto> ''zzz'']
      [''twitterunauthorized_token_name'' \<mapsto>
         [TokStr ''oauth_token=abc&oauth_token_secret=s1'',
          TokStr ''oauth_token=xyz&oauth_token_secret=s2'']]
     = (Inl (AuthTokenError ''Incorrect tokens''),
        [''twitterunauthorized_token_name'' \<mapsto>
           [TokStr ''oauth_token=abc&oauth_token_secret=s1'',
            TokStr ''oauth_token=xyz&oauth_token_secret=s2'']])
   \<and> (\<exists>stored.
        oauth1_auth_complete
          \<lparr>parse_qs = (\<lambda>s. if s = ''oauth_token=abc&oauth_token_secret=s1''
                        then [PStr ''oauth_token'' \<mapsto> PStr ''abc'', PStr ''oauth_token_secret'' \<mapsto> PStr ''s1'']
                        else if s = ''oauth_token=xyz&oauth_token_secret=s2''
                        then [PStr ''oauth_token'' \<mapsto> PStr ''xyz'', PStr ''oauth_token_secret'' \<mapsto> PStr ''s2'']
                        else Map.empty),
           list_of_set = (\<lambda>xs. xs), access_token = (\<lambda>tok. Inr tok), do_auth = (\<lambda>at. Inr at)\<rparr>
          ''twitter'' [''oauth_token'' \<mapsto> ''xyz'']
          [''twitterunauthorized_token_name'' \<mapsto>
             [TokStr ''oauth_token=abc&oauth_token_secret=s1'',
              TokStr ''oauth_token=xyz&oauth_token_secret=s2'']]
        = (Inr [PStr ''oauth_token'' \<mapsto> PStr ''xyz'', PStr ''oauth_token_secret'' \<mapsto> PStr ''s2''],
           [''twitterunauthorized_token_name'' \<mapsto> stored])
        \<and> set stored = {TokStr ''oauth_token=abc&oauth_token_secret=s1''}
        \<and> length stored = 1)"
proof -
  let ?A = "TokStr ''oauth_token=abc&oauth_token_secret=s1''"
  let ?B = "TokStr ''oauth_token=xyz&oauth_token_secret=s2''"
  let ?env = "\<lparr>parse_qs = (\<lambda>s. if s = ''oauth_token=abc&oauth_token_secret=s1''
                        then [PStr ''oauth_token'' \<mapsto> PStr ''abc'', PStr ''oauth_token_secret'' \<mapsto> PStr ''s1'']
                        else if s = ''oauth_token=xyz&oauth_token_secret=s2''
                        then [PStr ''oauth_token'' \<mapsto> PStr ''xyz'', PStr ''oauth_token_secret'' \<mapsto> PStr ''s2'']
                        else Map.empty),
       list_of_set = (\<lambda>xs. xs), access_token = (\<lambda>tok. Inr tok::error + pydict),
       do_auth = (\<lambda>at. Inr at::error + pydict)\<rparr>"
  let ?data = "[''oauth_token'' \<mapsto> ''xyz'']"
  let ?session = "[''twitterunauthorized_token_name'' \<mapsto> [?A, ?B]]"
  have order: "set_order (list_of_set ?env)"
    by (simp add: set_order_def)
  have idA: "token_id (parse_qs ?env) ?A = PStr ''abc''"
    and idB: "token_id (parse_qs ?env) ?B = PStr ''xyz''"
    by (simp_all add: token_id_def token_dict_def py_get_def OAUTH_TOKEN_PARAMETER_NAME_def)
  have missing: "oauth1_auth_complete ?env ''twitter'' ?data Map.empty
                   = (Inl (AuthTokenError ''Missing unauthorized token''), Map.empty)"
    using oauth1_auth_complete_tokens [of ?data "[]" Map.empty "''twitter''" "''xyz''" ?env]
    by (simp add: session_get_default_def OAUTH_TOKEN_PARAMETER_NAME_def)
  have incorrect: "oauth1_auth_complete ?env ''twitter'' [''oauth_token'' \<mapsto> ''zzz''] ?session
                     = (Inl (AuthTokenError ''Incorrect tokens''), ?session)"
    using oauth1_auth_complete_tokens [of "[''oauth_token'' \<mapsto> ''zzz'']" "[?A, ?B]" ?session
        "''twitter''" "''zzz''" ?env, THEN conjunct2, THEN conjunct1] idA idB
    by (simp add: session_get_default_def OAUTH_TOKEN_PARAMETER_NAME_def)
  have "\<exists>stored.
          oauth1_auth_complete ?env ''twitter'' ?data ?session
            = (oauth1_exchange ?env (token_dict (parse_qs ?env) ([?A, ?B] ! 1)),
               session_set ?session (''twitter'' @ ''unauthorized_token_name'') stored)
          \<and> distinct stored
          \<and> set stored = set [?A, ?B] - {[?A, ?B] ! 1}
          \<and> (distinct [?A, ?B] \<longrightarrow>
               mset stored = mset [?A, ?B] - {#[?A, ?B] ! 1#}
               \<and> length stored = length [?A, ?B] - 1)"
    using oauth1_auth_complete_tokens [of ?data "[?A, ?B]" ?session "''twitter''" "''xyz''" ?env,
        THEN conjunct2, THEN conjunct2, rule_format, of 1] order idA idB
    by (simp add: session_get_default_def OAUTH_TOKEN_PARAMETER_NAME_def)
  then obtain stored where
    "oauth1_auth_complete ?env ''twitter'' ?data ?session
       = (oauth1_exchange ?env (token_dict (parse_qs ?env) ?B),
          session_set ?session ''twitterunauthorized_token_name'' stored)"
    and "set stored = {?A}" and "length stored = 1"
    by auto
  then have "oauth1_auth_complete ?env ''twitter'' ?data ?session
        = (Inr [PStr ''oauth_token'' \<mapsto> PStr ''xyz'', PStr ''oauth_token_secret'' \<mapsto> PStr ''s2''],
           [''twitterunauthorized_token_name'' \<mapsto> stored])
        \<and> set stored = {?A} \<and> length stored = 1"
    by (simp add: oauth1_exchange_def token_dict_def session_set_def)
  then show ?thesis using missing incorrect by blast
qed

text \<open>
  The counterexample to claim C1 as the specification states it. With two
  pending tokens that are the same string (the provider answered both requests
  with the same token) and a callback that carries their id, the set difference
  leaves no token where the claim leaves one (\<open>N - 1 = 1\<close>). And with no pending
  token, a callback that carries \<^verbatim>\<open>oauth_problem=user_refused\<close> fails with
  \<^verbatim>\<open>AuthCanceled\<close>, not with \<^verbatim>\<open>AuthTokenError\<close>.
\<close>

theorem oauth1_auth_complete_tokens_counterexample:
  "oauth1_auth_complete
      \<lparr>parse_qs = (\<lambda>s. if s = ''oauth_token=abc&oauth_token_secret=s1''
                        then [PStr ''oauth_token'' \<mapsto> PStr ''abc'', PStr ''oauth_token_secret'' \<mapsto> PStr ''s1'']
                        else Map.empty),
       list_of_set = (\<lambda>xs. xs), access_token = (\<lambda>tok. Inr tok), do_auth = (\<lambda>at. Inr at)\<rparr>
      ''twitter'' [''oauth_token'' \<mapsto> ''abc'']
      [''twitterunauthorized_token_name'' \<mapsto>
         [TokStr ''oauth_token=abc&oauth_token_secret=s1'',
          TokStr ''oauth_token=abc&oauth_token_secret=s1'']]
     = (Inr [PStr ''oauth_token'' \<mapsto> PStr ''abc'', PStr ''oauth_token_secret'' \<mapsto> PStr ''s1''],
        [''twitterunauthorized_token_name'' \<mapsto> []])
   \<and> oauth1_auth_complete
      \<lparr>parse_qs = (\<lambda>s. Map.empty), list_of_set = (\<lambda>xs. xs),
       access_token = (\<lambda>tok. Inr tok), do_auth = (\<lambda>at. Inr at)\<rparr>
      ''twitter'' [''oauth_problem'' \<mapsto> ''user_refused''] Map.empty
     = (Inl (AuthCanceled [PStr ''User refused the access'']), Map.empty)"
  by (simp add: oauth1_auth_complete_def oauth1_process_error_def session_get_default_def
      OAUTH_TOKEN_PARAMETER_NAME_def token_id_def token_dict_def py_get_def
      list_set_difference_def oauth1_exchange_def session_set_def)

subsection \<open>A callback without \<^verbatim>\<open>oauth_token\<close>\<close>

text \<open>
  Claim C9, as the code has it. A callback without \<^verbatim>\<open>oauth_token\<close> is handled
  as the same callback with \<^verbatim>\<open>oauth_token=no-token\<close> would be. When it has no
  \<^verbatim>\<open>oauth_problem\<close> either and the session has pending tokens: if no pending
  entry has the token id \<^verbatim>\<open>no-token\<close> the call fails with \<^verbatim>\<open>AuthTokenError\<close>
  (incorrect tokens) and the session is as it was; if some entry has it, the
  loop matches the first such entry, and, the pending tokens being strings, the
  entry is exchanged and is no element of the list the session gets.
\<close>

theorem oauth1_auth_complete_no_token:
  assumes no_token: "data OAUTH_TOKEN_PARAMETER_NAME = None"
    and no_problem: "data ''oauth_problem'' = None"
    and tokens: "unauthed_tokens = session_get_default session (backend @ ''unauthorized_token_name'') []"
    and ne: "unauthed_tokens \<noteq> []"
  shows "((\<forall>t\<in>set unauthed_tokens. token_id (parse_qs env) t \<noteq> PStr ''no-token'') \<longrightarrow>
            oauth1_auth_complete env backend data session
              = (Inl (AuthTokenError ''Incorrect tokens''), session))
       \<and> ((\<exists>t\<in>set unauthed_tokens. token_id (parse_qs env) t = PStr ''no-token'') \<longrightarrow>
            (\<exists>orig. find_unauthed_token (parse_qs env) ''no-token'' unauthed_tokens
                        = Some (orig, token_dict (parse_qs env) orig)
               \<and> orig \<in> set unauthed_tokens
               \<and> token_id (parse_qs env) orig = PStr ''no-token''
               \<and> (\<not> list_ex is_dict unauthed_tokens \<and> set_order (list_of_set env) \<longrightarrow>
                    (\<exists>stored.
                       oauth1_auth_complete env backend data session
                         = (oauth1_exchange env (token_dict (parse_qs env) orig),
                            session_set session (backend @ ''unauthorized_token_name'') stored)
                       \<and> orig \<notin> set stored))))
       \<and> oauth1_auth_complete env backend data session
            = oauth1_auth_complete env backend (data(OAUTH_TOKEN_PARAMETER_NAME \<mapsto> ''no-token'')) session"
proof (intro conjI impI)
  assume "\<forall>t\<in>set unauthed_tokens. token_id (parse_qs env) t \<noteq> PStr ''no-token''"
  then have "find_unauthed_token (parse_qs env) ''no-token'' unauthed_tokens = None"
    by (simp add: find_unauthed_token_None)
  then show "oauth1_auth_complete env backend data session
              = (Inl (AuthTokenError ''Incorrect tokens''), session)"
    using no_token no_problem tokens ne
    by (simp add: oauth1_auth_complete_incorrect [of data session backend unauthed_tokens env])
next
  assume "\<exists>t\<in>set unauthed_tokens. token_id (parse_qs env) t = PStr ''no-token''"
  then obtain orig where found: "find_unauthed_token (parse_qs env) ''no-token'' unauthed_tokens
                        = Some (orig, token_dict (parse_qs env) orig)"
    using find_unauthed_token_exists by blast
  let ?tok = "token_dict (parse_qs env) orig"
  have mem: "orig \<in> set unauthed_tokens" and tid: "token_id (parse_qs env) orig = PStr ''no-token''"
    using find_unauthed_token_Some [OF found] by simp_all
  have consumed: "\<exists>stored.
          oauth1_auth_complete env backend data session
            = (oauth1_exchange env ?tok,
               session_set session (backend @ ''unauthorized_token_name'') stored)
          \<and> orig \<notin> set stored"
    if h: "\<not> list_ex is_dict unauthed_tokens \<and> set_order (list_of_set env)"
  proof -
    obtain stored where st: "list_set_difference (list_of_set env) unauthed_tokens orig = Inr stored"
      and s: "set stored = set unauthed_tokens - {orig}"
      using list_set_difference_strings [of unauthed_tokens "list_of_set env" orig] h by blast
    have "oauth1_auth_complete env backend data session
          = (oauth1_exchange env ?tok,
             session_set session (backend @ ''unauthorized_token_name'') stored)"
      using oauth1_auth_complete_matched [of data session backend unauthed_tokens env orig ?tok]
        no_problem no_token tokens ne found st by simp
    with s show ?thesis by blast
  qed
  show "\<exists>orig. find_unauthed_token (parse_qs env) ''no-token'' unauthed_tokens
                        = Some (orig, token_dict (parse_qs env) orig)
               \<and> orig \<in> set unauthed_tokens
               \<and> token_id (parse_qs env) orig = PStr ''no-token''
               \<and> (\<not> list_ex is_dict unauthed_tokens \<and> set_order (list_of_set env) \<longrightarrow>
                    (\<exists>stored.
                       oauth1_auth_complete env backend data session
                         = (oauth1_exchange env (token_dict (parse_qs env) orig),
                            session_set session (backend @ ''unauthorized_token_name'') stored)
                       \<and> orig \<notin> set stored))"
    using found mem tid consumed by blast
next
  show "oauth1_auth_complete env backend data session
            = oauth1_auth_complete env backend (data(OAUTH_TOKEN_PARAMETER_NAME \<mapsto> ''no-token'')) session"
  proof -
    have "(data(OAUTH_TOKEN_PARAMETER_NAME \<mapsto> ''no-token'')) ''oauth_problem'' = None"
      using no_problem by (simp add: OAUTH_TOKEN_PARAMETER_NAME_def)
    then have "oauth1_process_error (data(OAUTH_TOKEN_PARAMETER_NAME \<mapsto> ''no-token'')) = Inr ()"
      by (rule oauth1_process_error_passes)
    then show ?thesis
      using no_token no_problem tokens ne
      by (simp add: oauth1_auth_complete_def oauth1_process_error_passes)
  qed
qed

text \<open>
  A witness: the callback has no parameter. With one pending token of id
  \<^verbatim>\<open>abc\<close> the call fails; with a second pending token whose id is the string
  \<^verbatim>\<open>no-token\<close>, that token is exchanged and leaves the session.
\<close>

theorem oauth1_auth_complete_no_token_witness:
  "oauth1_auth_complete
      \<lparr>parse_qs = (\<lambda>s. if s = ''oauth_token=abc''
                        then [PStr ''oauth_token'' \<mapsto> PStr ''abc'']
                        else if s = ''oauth_token=no-token''
                        then [PStr ''oauth_token'' \<mapsto> PStr ''no-token'']
                        else Map.empty),
       list_of_set = (\<lambda>xs. xs), access_token = (\<lambda>tok. Inr tok), do_auth = (\<lambda>at. Inr at)\<rparr>
      ''twitter'' Map.empty
      [''twitterunauthorized_token_name'' \<mapsto> [TokStr ''oauth_token=abc'']]
     = (Inl (AuthTokenError ''Incorrect tokens''),
        [''twitterunauthorized_token_name'' \<mapsto> [TokStr ''oauth_token=abc'']])
   \<and> (\<exists>stored.
        oauth1_auth_complete
          \<lparr>parse_qs = (\<lambda>s. if s = ''oauth_token=abc''
                        then [PStr ''oauth_token'' \<mapsto> PStr ''abc'']
                        else if s = ''oauth_token=no-token''
                        then [PStr ''oauth_token'' \<mapsto> PStr ''no-token'']
                        else Map.empty),
           list_of_set = (\<lambda>xs. xs), access_token = (\<lambda>tok. Inr tok), do_auth = (\<lambda>at. Inr at)\<rparr>
          ''twitter'' Map.empty
          [''twitterunauthorized_token_name'' \<mapsto>
             [TokStr ''oauth_token=abc'', TokStr ''oauth_token=no-token'']]
        = (Inr [PStr ''oauth_token'' \<mapsto> PStr ''no-token''],
           [''twitterunauthorized_token_name'' \<mapsto> stored])
        \<and> TokStr ''oauth_token=no-token'' \<notin> set stored)"
proof -
  let ?A = "TokStr ''oauth_token=abc''"
  let ?N = "TokStr ''oauth_token=no-token''"
  let ?env = "\<lparr>parse_qs = (\<lambda>s. if s = ''oauth_token=abc''
                        then [PStr ''oauth_token'' \<mapsto> PStr ''abc'']
                        else if s = ''oauth_token=no-token''
                        then [PStr ''oauth_token'' \<mapsto> PStr ''no-token'']
                        else Map.empty),
       list_of_set = (\<lambda>xs. xs), access_token = (\<lambda>tok. Inr tok::error + pydict),
       do_auth = (\<lambda>at. Inr at::error + pydict)\<rparr>"
  let ?s1 = "[''twitterunauthorized_token_name'' \<mapsto> [?A]]"
  let ?s2 = "[''twitterunauthorized_token_name'' \<mapsto> [?A, ?N]]"
  have order: "set_order (list_of_set ?env)"
    by (simp add: set_order_def)
  have idA: "token_id (parse_qs ?env) ?A = PStr ''abc''"
    and idN: "token_id (parse_qs ?env) ?N = PStr ''no-token''"
    by (simp_all add: token_id_def token_dict_def py_get_def OAUTH_TOKEN_PARAMETER_NAME_def)
  have incorrect: "oauth1_auth_complete ?env ''twitter'' Map.empty ?s1
                     = (Inl (AuthTokenError ''Incorrect tokens''), ?s1)"
    using oauth1_auth_complete_no_token [of Map.empty "[?A]" ?s1 "''twitter''" ?env, THEN conjunct1] idA
    by (simp add: session_get_default_def)
  have "\<exists>orig. find_unauthed_token (parse_qs ?env) ''no-token'' [?A, ?N]
                        = Some (orig, token_dict (parse_qs ?env) orig)
               \<and> orig \<in> set [?A, ?N]
               \<and> token_id (parse_qs ?env) orig = PStr ''no-token''
               \<and> (\<not> list_ex is_dict [?A, ?N] \<and> set_order (list_of_set ?env) \<longrightarrow>
                    (\<exists>stored.
                       oauth1_auth_complete ?env ''twitter'' Map.empty ?s2
                         = (oauth1_exchange ?env (token_dict (parse_qs ?env) orig),
                            session_set ?s2 (''twitter'' @ ''unauthorized_token_name'') stored)
                       \<and> orig \<notin> set stored))"
    using oauth1_auth_complete_no_token [of Map.empty "[?A, ?N]" ?s2 "''twitter''" ?env,
        THEN conjunct2, THEN conjunct1] idN
    by (simp add: session_get_default_def)
  then obtain orig stored where "orig \<in> set [?A, ?N]"
    and "token_id (parse_qs ?env) orig = PStr ''no-token''"
    and "oauth1_auth_complete ?env ''twitter'' Map.empty ?s2
           = (oauth1_exchange ?env (token_dict (parse_qs ?env) orig),
              session_set ?s2 (''twitter'' @ ''unauthorized_token_name'') stored)"
    and "orig \<notin> set stored"
    using order by auto
  moreover from this(1,2) idA have "orig = ?N" by auto
  ultimately have "oauth1_auth_complete ?env ''twitter'' Map.empty ?s2
        = (Inr [PStr ''oauth_token'' \<mapsto> PStr ''no-token''],
           [''twitterunauthorized_token_name'' \<mapsto> stored])
        \<and> ?N \<notin> set stored"
    by (simp add: oauth1_exchange_def token_dict_def session_set_def)
  then show ?thesis using incorrect by blast
qed

text \<open>
  The counterexample to claim C9 as stated: the callback of a user who refused
  has \<^verbatim>\<open>oauth_problem=user_refused\<close> and no \<^verbatim>\<open>oauth_token\<close>; the session has
  a pending token, whose id is not \<^verbatim>\<open>no-token\<close>. The call fails with
  \<^verbatim>\<open>AuthCanceled\<close>, not with \<^verbatim>\<open>AuthTokenError\<close>: \<^verbatim>\<open>process_error\<close> runs
  before the tokens are read.
\<close>

theorem oauth1_auth_complete_no_token_counterexample:
  "oauth1_auth_complete
      \<lparr>parse_qs = (\<lambda>s. if s = ''oauth_token=abc&oauth_token_secret=s1''
                        then [PStr ''oauth_token'' \<mapsto> PStr ''abc'', PStr ''oauth_token_secret'' \<mapsto> PStr ''s1'']
                        else Map.empty),
       list_of_set = (\<lambda>xs. xs), access_token = (\<lambda>tok. Inr tok), do_auth = (\<lambda>at. Inr at)\<rparr>
      ''twitter'' [''oauth_problem'' \<mapsto> ''user_refused'']
      [''twitterunauthorized_token_name'' \<mapsto> [TokStr ''oauth_token=abc&oauth_token_secret=s1'']]
     = (Inl (AuthCanceled [PStr ''User refused the access'']),
        [''twitterunauthorized_token_name'' \<mapsto> [TokStr ''oauth_token=abc&oauth_token_secret=s1'']])"
  by (simp add: oauth1_auth_complete_def oauth1_process_error_def)


section \<open>The errors a provider reports\<close>

text \<open>
  Claim C6. For every callback \<open>data\<close> of the OAuth1 flow: \<^verbatim>\<open>oauth_problem\<close> equal
  to \<^verbatim>\<open>user_refused\<close> raises \<^verbatim>\<open>AuthCanceled\<close>, any other value of
  \<^verbatim>\<open>oauth_problem\<close> raises \<^verbatim>\<open>AuthUnknownError\<close>. For every dictionary \<open>d\<close> that
  the OAuth2 flow checks (the callback's parameters, the token endpoint's
  response): \<^verbatim>\<open>error\<close> equal to \<^verbatim>\<open>denied\<close> or \<^verbatim>\<open>access_denied\<close> raises
  \<^verbatim>\<open>AuthCanceled\<close> with \<^verbatim>\<open>error_description\<close> (an empty string when there is
  none); any other non-empty (truthy) \<^verbatim>\<open>error\<close> raises \<^verbatim>\<open>AuthFailed\<close>, with
  \<^verbatim>\<open>error_description\<close> or else the error; and with no \<^verbatim>\<open>error\<close> (or an empty
  one), a key \<^verbatim>\<open>denied\<close> raises \<^verbatim>\<open>AuthCanceled\<close> with its value.
\<close>

theorem process_error_mappings:
  "(data ''oauth_problem'' = Some ''user_refused'' \<longrightarrow>
      oauth1_process_error data = Inl (AuthCanceled [PStr ''User refused the access'']))
   \<and> (\<forall>problem. data ''oauth_problem'' = Some problem \<and> problem \<noteq> ''user_refused'' \<longrightarrow>
      oauth1_process_error data = Inl (AuthUnknownError [PStr (''Error was '' @ problem)]))
   \<and> (d (PStr ''error'') = Some (PStr ''denied'') \<or> d (PStr ''error'') = Some (PStr ''access_denied'') \<longrightarrow>
      oauth2_process_error d = Inl (AuthCanceled [py_get d (PStr ''error_description'') (PStr '''')]))
   \<and> (\<forall>e. d (PStr ''error'') = Some e \<and> truthy e \<and> e \<noteq> PStr ''denied'' \<and> e \<noteq> PStr ''access_denied'' \<longrightarrow>
      oauth2_process_error d
        = Inl (AuthFailed [py_or (py_get d (PStr ''error_description'') PNone) e]))
   \<and> (\<forall>v. \<not> truthy (py_get d (PStr ''error'') PNone) \<and> d (PStr ''denied'') = Some v \<longrightarrow>
      oauth2_process_error d = Inl (AuthCanceled [v]))"
  by (auto simp: oauth1_process_error_def oauth2_process_error_def py_get_def)

text \<open>A witness: the five mappings that the specification lists.\<close>

theorem process_error_mappings_witness:
  "oauth1_process_error [''oauth_problem'' \<mapsto> ''user_refused'']
      = Inl (AuthCanceled [PStr ''User refused the access''])
   \<and> oauth1_process_error [''oauth_problem'' \<mapsto> ''x''] = Inl (AuthUnknownError [PStr ''Error was x''])
   \<and> oauth2_process_error [PStr ''error'' \<mapsto> PStr ''access_denied''] = Inl (AuthCanceled [PStr ''''])
   \<and> oauth2_process_error [PStr ''error'' \<mapsto> PStr ''invalid_grant'']
      = Inl (AuthFailed [PStr ''invalid_grant''])
   \<and> oauth2_process_error [PStr ''denied'' \<mapsto> PStr ''yes''] = Inl (AuthCanceled [PStr ''yes''])"
proof -
  have a: "oauth1_process_error [''oauth_problem'' \<mapsto> ''user_refused'']
      = Inl (AuthCanceled [PStr ''User refused the access''])"
    using process_error_mappings [of "[''oauth_problem'' \<mapsto> ''user_refused'']" Map.empty]
    by simp
  have b: "oauth1_process_error [''oauth_problem'' \<mapsto> ''x''] = Inl (AuthUnknownError [PStr ''Error was x''])"
    using process_error_mappings [of "[''oauth_problem'' \<mapsto> ''x'']" Map.empty]
    by simp
  have c: "oauth2_process_error [PStr ''error'' \<mapsto> PStr ''access_denied''] = Inl (AuthCanceled [PStr ''''])"
    using process_error_mappings [of Map.empty "[PStr ''error'' \<mapsto> PStr ''access_denied'']"]
    by (simp add: py_get_def)
  have d: "oauth2_process_error [PStr ''error'' \<mapsto> PStr ''invalid_grant'']
      = Inl (AuthFailed [PStr ''invalid_grant''])"
    using process_error_mappings [of Map.empty "[PStr ''error'' \<mapsto> PStr ''invalid_grant'']"]
    by (simp add: py_get_def py_or_def)
  have e: "oauth2_process_error [PStr ''denied'' \<mapsto> PStr ''yes''] = Inl (AuthCanceled [PStr ''yes''])"
    using process_error_mappings [of Map.empty "[PStr ''denied'' \<mapsto> PStr ''yes'']"]
    by (simp add: py_get_def)
  from a b c d e show ?thesis by simp
qed


section \<open>BaseOAuth2: the state\<close>

text \<open>
  Claim C8. With the state parameter or the redirect state enabled,
  \<^verbatim>\<open>auth_url\<close> changes the session in one case only: when the slot of the backend
  holds no state, it stores there the token that \<^verbatim>\<open>random_string(32)\<close> gives
  (of 32 characters, as \<^verbatim>\<open>random_string\<close> gives a string of the length it is
  asked for). A state that is in the slot stays, so a second call, whatever the
  random source gives then, leaves the session as the first call left it.
\<close>

theorem auth_url_state:
  assumes "STATE_PARAMETER b \<or> REDIRECT_STATE b"
  shows "(session_get session (backend_name b @ ''_state'') = None \<longrightarrow>
            snd (oauth2_auth_url b env session)
              = session_set session (backend_name b @ ''_state'') (random_string env 32)
            \<and> (length (random_string env 32) = 32 \<longrightarrow>
                 (\<exists>state. session_get (snd (oauth2_auth_url b env session))
                             (backend_name b @ ''_state'') = Some state \<and> length state = 32)))
       \<and> (\<forall>state. session_get session (backend_name b @ ''_state'') = Some state \<longrightarrow>
            snd (oauth2_auth_url b env session) = session)
       \<and> snd (oauth2_auth_url b env' (snd (oauth2_auth_url b env session)))
            = snd (oauth2_auth_url b env session)"
  using assms
  by (auto simp: oauth2_auth_url_def session_get_def session_set_def state_token_def Let_def
      split: option.splits)

text \<open>
  A witness, with the attributes of the class: from an empty session the call
  stores 32 characters; a state that is there stays; a second call, with a
  random source that gives other characters, keeps the state of the first.
\<close>

theorem auth_url_state_witness:
  "snd (oauth2_auth_url (BaseOAuth2 ''provider'' ''https://p/auth'' ''https://app/cb'' ''id'' ''secret'')
          \<lparr>random_string = (\<lambda>n. replicate n CHR ''r''), url_add_parameters = (\<lambda>uri ps. uri),
           urlencode = (\<lambda>ps. []), unquote = (\<lambda>s. s), auth_extra_arguments = Map.empty,
           request_access_token = (\<lambda>form. Inr Map.empty),
           user_data = (\<lambda>token response. Inr (Some Map.empty)),
           authenticate = (\<lambda>response. Inr response)\<rparr>
          Map.empty)
     = [''provider_state'' \<mapsto> replicate 32 CHR ''r'']
   \<and> length (replicate 32 CHR ''r'') = 32
   \<and> snd (oauth2_auth_url (BaseOAuth2 ''provider'' ''https://p/auth'' ''https://app/cb'' ''id'' ''secret'')
          \<lparr>random_string = (\<lambda>n. replicate n CHR ''r''), url_add_parameters = (\<lambda>uri ps. uri),
           urlencode = (\<lambda>ps. []), unquote = (\<lambda>s. s), auth_extra_arguments = Map.empty,
           request_access_token = (\<lambda>form. Inr Map.empty),
           user_data = (\<lambda>token response. Inr (Some Map.empty)),
           authenticate = (\<lambda>response. Inr response)\<rparr>
          [''provider_state'' \<mapsto> ''Zm9vYmFy''])
     = [''provider_state'' \<mapsto> ''Zm9vYmFy'']
   \<and> snd (oauth2_auth_url (BaseOAuth2 ''provider'' ''https://p/auth'' ''https://app/cb'' ''id'' ''secret'')
          \<lparr>random_string = (\<lambda>n. replicate n CHR ''q''), url_add_parameters = (\<lambda>uri ps. uri),
           urlencode = (\<lambda>ps. []), unquote = (\<lambda>s. s), auth_extra_arguments = Map.empty,
           request_access_token = (\<lambda>form. Inr Map.empty),
           user_data = (\<lambda>token response. Inr (Some Map.empty)),
           authenticate = (\<lambda>response. Inr response)\<rparr>
          (snd (oauth2_auth_url (BaseOAuth2 ''provider'' ''https://p/auth'' ''https://app/cb'' ''id'' ''secret'')
          \<lparr>random_string = (\<lambda>n. replicate n CHR ''r''), url_add_parameters = (\<lambda>uri ps. uri),
           urlencode = (\<lambda>ps. []), unquote = (\<lambda>s. s), auth_extra_arguments = Map.empty,
           request_access_token = (\<lambda>form. Inr Map.empty),
           user_data = (\<lambda>token response. Inr (Some Map.empty)),
           authenticate = (\<lambda>response. Inr response)\<rparr>
          Map.empty)))
     = [''provider_state'' \<mapsto> replicate 32 CHR ''r'']"
proof -
  let ?b = "BaseOAuth2 ''provider'' ''https://p/auth'' ''https://app/cb'' ''id'' ''secret''"
  let ?env = "\<lambda>c. \<lparr>random_string = (\<lambda>n. replicate n c), url_add_parameters = (\<lambda>uri ps. uri),
           urlencode = (\<lambda>ps. []), unquote = (\<lambda>s. s), auth_extra_arguments = Map.empty,
           request_access_token = (\<lambda>form. Inr Map.empty),
           user_data = (\<lambda>token response. Inr (Some Map.empty)),
           authenticate = (\<lambda>response. Inr response :: error + pydict)\<rparr>"
  have name: "backend_name ?b @ ''_state'' = ''provider_state''"
    and on: "STATE_PARAMETER ?b \<or> REDIRECT_STATE ?b"
    by (simp_all add: BaseOAuth2_def)
  have a: "snd (oauth2_auth_url ?b (?env CHR ''r'') Map.empty)
             = [''provider_state'' \<mapsto> replicate 32 CHR ''r'']"
    using auth_url_state [OF on, of Map.empty "?env CHR ''r''", THEN conjunct1] name
    by (simp add: session_get_def session_set_def)
  have b: "snd (oauth2_auth_url ?b (?env CHR ''r'') [''provider_state'' \<mapsto> ''Zm9vYmFy''])
             = [''provider_state'' \<mapsto> ''Zm9vYmFy'']"
    using auth_url_state [OF on, of "[''provider_state'' \<mapsto> ''Zm9vYmFy'']" "?env CHR ''r''",
        THEN conjunct2, THEN conjunct1] name
    by (simp add: session_get_def)
  have c: "snd (oauth2_auth_url ?b (?env CHR ''q'') (snd (oauth2_auth_url ?b (?env CHR ''r'') Map.empty)))
             = snd (oauth2_auth_url ?b (?env CHR ''r'') Map.empty)"
    using auth_url_state [OF on, of Map.empty "?env CHR ''r''" "?env CHR ''q''",
        THEN conjunct2, THEN conjunct2] .
  from a b c show ?thesis by simp
qed

text \<open>
  Claim C5. \<^verbatim>\<open>validate_state\<close> returns \<^verbatim>\<open>None\<close> when the state parameter and
  the redirect state are both disabled. With one of them enabled and a
  (non-empty) state in the slot of the backend, as \<^verbatim>\<open>auth_url\<close> stores one: the
  callback's value is its \<^verbatim>\<open>state\<close>, or its \<^verbatim>\<open>redirect_state\<close> when it has no
  \<^verbatim>\<open>state\<close> (or an empty one); a callback whose value is the stored state gets
  the state back, be the value its \<^verbatim>\<open>state\<close> or its \<^verbatim>\<open>redirect_state\<close>; one
  with another value fails with \<^verbatim>\<open>AuthStateForbidden\<close>; one with no value
  (neither parameter, or empty ones) fails with \<^verbatim>\<open>AuthMissingParameter\<close>. Last,
  the round trip: the state that \<^verbatim>\<open>auth_url\<close> mints into an empty slot validates
  when the callback echoes it.
\<close>

theorem validate_state_cases:
  "(\<not> STATE_PARAMETER b \<and> \<not> REDIRECT_STATE b \<longrightarrow> validate_state b data session = Inr None)
   \<and> ((STATE_PARAMETER b \<or> REDIRECT_STATE b)
        \<and> session_get session (backend_name b @ ''_state'') = Some state \<and> state \<noteq> [] \<longrightarrow>
         (request_state data = Some state \<longrightarrow> validate_state b data session = Inr (Some state))
       \<and> (data ''state'' = Some state \<longrightarrow> validate_state b data session = Inr (Some state))
       \<and> (\<not> str_truthy (data ''state'') \<and> data ''redirect_state'' = Some state \<longrightarrow>
            validate_state b data session = Inr (Some state))
       \<and> (str_truthy (request_state data) \<and> request_state data \<noteq> Some state \<longrightarrow>
            validate_state b data session = Inl AuthStateForbidden)
       \<and> (\<not> str_truthy (request_state data) \<longrightarrow>
            validate_state b data session = Inl (AuthMissingParameter ''state''))
       \<and> (\<not> str_truthy (data ''state'') \<and> \<not> str_truthy (data ''redirect_state'') \<longrightarrow>
            validate_state b data session = Inl (AuthMissingParameter ''state'')))
   \<and> ((STATE_PARAMETER b \<or> REDIRECT_STATE b)
        \<and> session_get session (backend_name b @ ''_state'') = None
        \<and> random_string env 32 \<noteq> []
        \<and> request_state data = Some (random_string env 32) \<longrightarrow>
         validate_state b data (snd (oauth2_auth_url b env session)) = Inr (Some (random_string env 32)))"
proof -
  have off: "validate_state b data session = Inr None"
    if "\<not> STATE_PARAMETER b \<and> \<not> REDIRECT_STATE b"
    using that by (simp add: validate_state_def)
  have stored: "(request_state data = Some state \<longrightarrow> validate_state b data session = Inr (Some state))
       \<and> (data ''state'' = Some state \<longrightarrow> validate_state b data session = Inr (Some state))
       \<and> (\<not> str_truthy (data ''state'') \<and> data ''redirect_state'' = Some state \<longrightarrow>
            validate_state b data session = Inr (Some state))
       \<and> (str_truthy (request_state data) \<and> request_state data \<noteq> Some state \<longrightarrow>
            validate_state b data session = Inl AuthStateForbidden)
       \<and> (\<not> str_truthy (request_state data) \<longrightarrow>
            validate_state b data session = Inl (AuthMissingParameter ''state''))
       \<and> (\<not> str_truthy (data ''state'') \<and> \<not> str_truthy (data ''redirect_state'') \<longrightarrow>
            validate_state b data session = Inl (AuthMissingParameter ''state''))"
    if "(STATE_PARAMETER b \<or> REDIRECT_STATE b)
        \<and> session_get session (backend_name b @ ''_state'') = Some state \<and> state \<noteq> []"
    for session state
    using that by (auto simp: validate_state_def request_state_def str_or_def)
  have minted: "validate_state b data (snd (oauth2_auth_url b env session))
                  = Inr (Some (random_string env 32))"
    if h: "(STATE_PARAMETER b \<or> REDIRECT_STATE b)
        \<and> session_get session (backend_name b @ ''_state'') = None
        \<and> random_string env 32 \<noteq> []
        \<and> request_state data = Some (random_string env 32)"
  proof -
    have "session_get (snd (oauth2_auth_url b env session)) (backend_name b @ ''_state'')
            = Some (random_string env 32)"
      using h by (auto simp: oauth2_auth_url_def session_get_def session_set_def state_token_def Let_def)
    with h stored [of "snd (oauth2_auth_url b env session)" "random_string env 32"]
    show ?thesis by blast
  qed
  from off stored minted show ?thesis by blast
qed

text \<open>
  A witness, with the attributes of the class and the state \<^verbatim>\<open>Zm9vYmFy\<close> in the
  session: with both toggles off nothing is checked; the state echoed as
  \<^verbatim>\<open>state\<close> or as \<^verbatim>\<open>redirect_state\<close> is returned; another value is
  forbidden; a callback without either parameter misses the parameter. And the
  round trip: the state that \<^verbatim>\<open>auth_url\<close> stores in an empty session validates.
\<close>

theorem validate_state_cases_witness:
  "validate_state (BaseOAuth2 ''provider'' ''https://p/auth'' ''https://app/cb'' ''id'' ''secret''
                     \<lparr>REDIRECT_STATE := False, STATE_PARAMETER := False\<rparr>)
       [''state'' \<mapsto> ''tampered''] [''provider_state'' \<mapsto> ''Zm9vYmFy''] = Inr None
   \<and> validate_state (BaseOAuth2 ''provider'' ''https://p/auth'' ''https://app/cb'' ''id'' ''secret'')
       [''state'' \<mapsto> ''Zm9vYmFy''] [''provider_state'' \<mapsto> ''Zm9vYmFy''] = Inr (Some ''Zm9vYmFy'')
   \<and> validate_state (BaseOAuth2 ''provider'' ''https://p/auth'' ''https://app/cb'' ''id'' ''secret'')
       [''redirect_state'' \<mapsto> ''Zm9vYmFy''] [''provider_state'' \<mapsto> ''Zm9vYmFy''] = Inr (Some ''Zm9vYmFy'')
   \<and> validate_state (BaseOAuth2 ''provider'' ''https://p/auth'' ''https://app/cb'' ''id'' ''secret'')
       [''state'' \<mapsto> ''tampered''] [''provider_state'' \<mapsto> ''Zm9vYmFy''] = Inl AuthStateForbidden
   \<and> validate_state (BaseOAuth2 ''provider'' ''https://p/auth'' ''https://app/cb'' ''id'' ''secret'')
       [''code'' \<mapsto> ''c''] [''provider_state'' \<mapsto> ''Zm9vYmFy''] = Inl (AuthMissingParameter ''state'')
   \<and> validate_state (BaseOAuth2 ''provider'' ''https://p/auth'' ''https://app/cb'' ''id'' ''secret'')
       [''state'' \<mapsto> replicate 32 CHR ''r'']
       (snd (oauth2_auth_url (BaseOAuth2 ''provider'' ''https://p/auth'' ''https://app/cb'' ''id'' ''secret'')
          \<lparr>random_string = (\<lambda>n. replicate n CHR ''r''), url_add_parameters = (\<lambda>uri ps. uri),
           urlencode = (\<lambda>ps. []), unquote = (\<lambda>s. s), auth_extra_arguments = Map.empty,
           request_access_token = (\<lambda>form. Inr Map.empty),
           user_data = (\<lambda>token response. Inr (Some Map.empty)),
           authenticate = (\<lambda>response. Inr response)\<rparr>
          Map.empty))
     = Inr (Some (replicate 32 CHR ''r''))"
proof -
  let ?b = "BaseOAuth2 ''provider'' ''https://p/auth'' ''https://app/cb'' ''id'' ''secret''"
  let ?s = "[''provider_state'' \<mapsto> ''Zm9vYmFy'']"
  let ?env = "\<lparr>random_string = (\<lambda>n. replicate n CHR ''r''), url_add_parameters = (\<lambda>uri ps. uri),
           urlencode = (\<lambda>ps. []), unquote = (\<lambda>s. s), auth_extra_arguments = Map.empty,
           request_access_token = (\<lambda>form. Inr Map.empty),
           user_data = (\<lambda>token response. Inr (Some Map.empty)),
           authenticate = (\<lambda>response. Inr response :: error + pydict)\<rparr>"
  have name: "backend_name ?b @ ''_state'' = ''provider_state''"
    and on: "STATE_PARAMETER ?b" "REDIRECT_STATE ?b"
    by (simp_all add: BaseOAuth2_def)
  have a: "validate_state (?b\<lparr>REDIRECT_STATE := False, STATE_PARAMETER := False\<rparr>)
             [''state'' \<mapsto> ''tampered''] ?s = Inr None"
    using validate_state_cases [of "?b\<lparr>REDIRECT_STATE := False, STATE_PARAMETER := False\<rparr>"
        "[''state'' \<mapsto> ''tampered'']" ?s, THEN conjunct1]
    by simp
  have b: "validate_state ?b [''state'' \<mapsto> ''Zm9vYmFy''] ?s = Inr (Some ''Zm9vYmFy'')"
    using validate_state_cases [of ?b "[''state'' \<mapsto> ''Zm9vYmFy'']" ?s "''Zm9vYmFy''",
        THEN conjunct2, THEN conjunct1] name on
    by (simp add: session_get_def)
  have c: "validate_state ?b [''redirect_state'' \<mapsto> ''Zm9vYmFy''] ?s = Inr (Some ''Zm9vYmFy'')"
    using validate_state_cases [of ?b "[''redirect_state'' \<mapsto> ''Zm9vYmFy'']" ?s "''Zm9vYmFy''",
        THEN conjunct2, THEN conjunct1] name on
    by (simp add: session_get_def)
  have d: "validate_state ?b [''state'' \<mapsto> ''tampered''] ?s = Inl AuthStateForbidden"
    using validate_state_cases [of ?b "[''state'' \<mapsto> ''tampered'']" ?s "''Zm9vYmFy''",
        THEN conjunct2, THEN conjunct1] name on
    by (simp add: session_get_def request_state_def str_or_def)
  have e: "validate_state ?b [''code'' \<mapsto> ''c''] ?s = Inl (AuthMissingParameter ''state'')"
    using validate_state_cases [of ?b "[''code'' \<mapsto> ''c'']" ?s "''Zm9vYmFy''",
        THEN conjunct2, THEN conjunct1] name on
    by (simp add: session_get_def)
  have f: "validate_state ?b [''state'' \<mapsto> replicate 32 CHR ''r'']
             (snd (oauth2_auth_url ?b ?env Map.empty)) = Inr (Some (replicate 32 CHR ''r''))"
    using validate_state_cases [of ?b "[''state'' \<mapsto> replicate 32 CHR ''r'']" Map.empty _ ?env,
        THEN conjunct2, THEN conjunct2] name on
    by (simp add: session_get_def request_state_def str_or_def)
  from a b c d e f show ?thesis by simp
qed

text \<open>
  Claim C3: the code at the input where it departs from the claim. The test
  \<^verbatim>\<open>elif not state: raise AuthStateMissing\<close> stands inside \<^verbatim>\<open>if state:\<close>, where the
  state is truthy, so no call reaches it. With the attributes of the class (both
  toggles on) and an empty string in the slot of the backend,
  \<^verbatim>\<open>validate_state\<close> raises nothing and returns the empty state, whatever the
  callback holds.
\<close>

theorem validate_state_empty_stored_state:
  "validate_state (BaseOAuth2 ''provider'' ''https://p/auth'' ''https://app/cb'' ''id'' ''secret'')
       [''code'' \<mapsto> ''c''] [''provider_state'' \<mapsto> ''''] = Inr (Some '''')"
  by (simp add: validate_state_def BaseOAuth2_def session_get_def)

text \<open>
  The same for every backend, callback and session: a falsy state in the slot
  (none, or an empty string) is returned as it is, and no call of
  \<^verbatim>\<open>validate_state\<close> raises \<^verbatim>\<open>AuthStateMissing\<close>.
\<close>

lemma validate_state_falsy_stored_state:
  "STATE_PARAMETER b \<or> REDIRECT_STATE b
     \<Longrightarrow> \<not> str_truthy (session_get session (backend_name b @ ''_state''))
     \<Longrightarrow> validate_state b data session = Inr (session_get session (backend_name b @ ''_state''))"
  by (auto simp: validate_state_def)

lemma validate_state_never_StateMissing:
  "validate_state b data session \<noteq> Inl (AuthStateMissing p)"
  by (auto simp: validate_state_def Let_def)


section \<open>BaseOAuth2: the token and the user data\<close>

text \<open>
  Claim C10. \<^verbatim>\<open>do_auth\<close> hands to \<^verbatim>\<open>authenticate\<close> the token endpoint's
  response updated with what \<^verbatim>\<open>user_data\<close> returned: under a key that the user
  data has, the value is the user data's (it overwrites the response's), under
  any other key it is the response's. When \<^verbatim>\<open>user_data\<close> returns \<^verbatim>\<open>None\<close> or
  an empty dictionary, \<^verbatim>\<open>authenticate\<close> gets the response as it was.
\<close>

theorem do_auth_merge:
  "(\<forall>data. user_data env token response = Inr (Some data) \<longrightarrow>
       oauth2_do_auth env token (Some response) = authenticate env (response ++ data)
     \<and> (\<forall>k v. data k = Some v \<longrightarrow> (response ++ data) k = Some v)
     \<and> (\<forall>k. data k = None \<longrightarrow> (response ++ data) k = response k))
   \<and> (user_data env token response = Inr None \<or> user_data env token response = Inr (Some Map.empty) \<longrightarrow>
       oauth2_do_auth env token (Some response) = authenticate env response)"
  by (auto simp: oauth2_do_auth_def map_add_def split: option.splits)

text \<open>
  A witness: the response and the user data both have \<^verbatim>\<open>expires\<close>, and
  \<^verbatim>\<open>authenticate\<close> (which here returns what it is given) gets the user data's
  60; with user data \<^verbatim>\<open>None\<close> it gets the response.
\<close>

theorem do_auth_merge_witness:
  "oauth2_do_auth
      \<lparr>random_string = (\<lambda>n. replicate n CHR ''r''), url_add_parameters = (\<lambda>uri ps. uri),
       urlencode = (\<lambda>ps. []), unquote = (\<lambda>s. s), auth_extra_arguments = Map.empty,
       request_access_token = (\<lambda>form. Inr Map.empty),
       user_data = (\<lambda>token response. Inr (Some [PStr ''id'' \<mapsto> PInt 7, PStr ''expires'' \<mapsto> PInt 60])),
       authenticate = (\<lambda>response. Inr response)\<rparr>
      (PStr ''tok'') (Some [PStr ''access_token'' \<mapsto> PStr ''tok'', PStr ''expires'' \<mapsto> PInt 3600])
     = Inr [PStr ''access_token'' \<mapsto> PStr ''tok'', PStr ''expires'' \<mapsto> PInt 60, PStr ''id'' \<mapsto> PInt 7]
   \<and> oauth2_do_auth
      \<lparr>random_string = (\<lambda>n. replicate n CHR ''r''), url_add_parameters = (\<lambda>uri ps. uri),
       urlencode = (\<lambda>ps. []), unquote = (\<lambda>s. s), auth_extra_arguments = Map.empty,
       request_access_token = (\<lambda>form. Inr Map.empty),
       user_data = (\<lambda>token response. Inr None),
       authenticate = (\<lambda>response. Inr response)\<rparr>
      (PStr ''tok'') (Some [PStr ''access_token'' \<mapsto> PStr ''tok'', PStr ''expires'' \<mapsto> PInt 3600])
     = Inr [PStr ''access_token'' \<mapsto> PStr ''tok'', PStr ''expires'' \<mapsto> PInt 3600]"
proof -
  let ?r = "[PStr ''access_token'' \<mapsto> PStr ''tok'', PStr ''expires'' \<mapsto> PInt 3600]"
  let ?d = "[PStr ''id'' \<mapsto> PInt 7, PStr ''expires'' \<mapsto> PInt 60]"
  let ?env = "\<lambda>u. \<lparr>random_string = (\<lambda>n. replicate n CHR ''r''), url_add_parameters = (\<lambda>uri ps. uri),
       urlencode = (\<lambda>ps. []), unquote = (\<lambda>s. s), auth_extra_arguments = Map.empty,
       request_access_token = (\<lambda>form. Inr Map.empty),
       user_data = (\<lambda>token response. Inr u),
       authenticate = (\<lambda>response. Inr response :: error + pydict)\<rparr>"
  have a: "oauth2_do_auth (?env (Some ?d)) (PStr ''tok'') (Some ?r) = authenticate (?env (Some ?d)) (?r ++ ?d)"
    using do_auth_merge [of "?env (Some ?d)" "PStr ''tok''" ?r, THEN conjunct1, rule_format, of ?d]
    by simp
  have m: "?r ++ ?d = [PStr ''access_token'' \<mapsto> PStr ''tok'', PStr ''expires'' \<mapsto> PInt 60, PStr ''id'' \<mapsto> PInt 7]"
    by (rule ext) (simp add: map_add_def)
  have b: "oauth2_do_auth (?env None) (PStr ''tok'') (Some ?r) = authenticate (?env None) ?r"
    using do_auth_merge [of "?env None" "PStr ''tok''" ?r, THEN conjunct2]
    by simp
  from a b m show ?thesis by simp
qed

text \<open>
  The exchange of the code for a token, when the callback reports no error and
  the state validates. An \<^verbatim>\<open>HTTPError\<close> with status 400 becomes
  \<^verbatim>\<open>AuthCanceled\<close>; any other exception of the request, \<^verbatim>\<open>KeyError\<close> apart, is
  raised as it is; a \<^verbatim>\<open>KeyError\<close> of the request becomes \<^verbatim>\<open>AuthUnknownError\<close>.
  A response that reports no error and has no \<^verbatim>\<open>access_token\<close> is read after
  the \<^verbatim>\<open>try\<close> statement, by \<^verbatim>\<open>response['access_token']\<close>: the \<^verbatim>\<open>KeyError\<close>
  of that lookup is raised as it is.
\<close>

lemma oauth2_auth_complete_exchange:
  assumes "oauth2_process_error (params_dict data) = Inr ()"
    and "validate_state b data session = Inr state"
  shows "(request_access_token env (auth_complete_params b env data state) = Inl (HTTPError 400) \<longrightarrow>
            oauth2_auth_complete b env data session = Inl (AuthCanceled []))
       \<and> (\<forall>e. request_access_token env (auth_complete_params b env data state) = Inl e
              \<and> e \<noteq> HTTPError 400 \<and> (\<forall>k. e \<noteq> KeyError k) \<longrightarrow>
            oauth2_auth_complete b env data session = Inl e)
       \<and> (\<forall>k. request_access_token env (auth_complete_params b env data state) = Inl (KeyError k) \<longrightarrow>
            oauth2_auth_complete b env data session = Inl (AuthUnknownError []))
       \<and> (\<forall>response. request_access_token env (auth_complete_params b env data state) = Inr response
              \<and> oauth2_process_error response = Inr ()
              \<and> response (PStr ''access_token'') = None \<longrightarrow>
            oauth2_auth_complete b env data session = Inl (KeyError ''access_token''))"
  using assms
  by (auto simp: oauth2_auth_complete_def except_token_request_def split: error.splits)

text \<open>
  Claim C2: the code at the input where it departs from the claim. The callback
  carries the code and the state of the session; the token endpoint answers
  with \<^verbatim>\<open>{"token_type": "bearer"}\<close>, a response without \<^verbatim>\<open>access_token\<close> and
  without \<^verbatim>\<open>error\<close>. \<^verbatim>\<open>auth_complete\<close> fails with \<^verbatim>\<open>KeyError\<close>, not with
  \<^verbatim>\<open>AuthUnknownError\<close>.
\<close>

theorem oauth2_auth_complete_missing_access_token:
  "oauth2_auth_complete
      (BaseOAuth2 ''provider'' ''https://p/auth'' ''https://app/cb'' ''id'' ''secret'')
      \<lparr>random_string = (\<lambda>n. replicate n CHR ''r''), url_add_parameters = (\<lambda>uri ps. uri),
       urlencode = (\<lambda>ps. []), unquote = (\<lambda>s. s), auth_extra_arguments = Map.empty,
       request_access_token = (\<lambda>form. Inr [PStr ''token_type'' \<mapsto> PStr ''bearer'']),
       user_data = (\<lambda>token response. Inr (Some Map.empty)),
       authenticate = (\<lambda>response. Inr response)\<rparr>
      [''code'' \<mapsto> ''c'', ''state'' \<mapsto> ''Zm9vYmFy''] [''provider_state'' \<mapsto> ''Zm9vYmFy'']
     = (Inl (KeyError ''access_token'') :: error + pydict)"
  by (simp add: oauth2_auth_complete_def oauth2_process_error_def params_dict_def py_get_def
      validate_state_def request_state_def BaseOAuth2_def session_get_def str_or_def
      except_token_request_def)

end
